theory Spec2Isabelle
  imports Main
begin

section \<open>The IR model\<close>

text \<open>
  The graph that the lowering of \<^verbatim>\<open>clang/lib/CIR/LowerToLLVM.cpp\<close> rewrites: operations
  with an opcode, ordered operands, ordered typed results, named attributes and owned
  regions; regions of blocks; blocks with typed arguments and an ordered list of
  operations. A Value is identified by a handle (a natural number); it is introduced,
  with its type, as a result of an operation or as an argument of a block, and an operand
  refers to it by its handle.
\<close>

datatype mtype =
    IntegerType nat
  | CIRPointerType mtype
  | MemRefType "nat list" mtype
  | FunctionType "mtype list" "mtype list"
  | OtherType string

datatype attribute =
    StringAttr string
  | FlatSymbolRefAttr string
  | TypeAttr mtype
  | IntegerAttr int
  | OtherAttr string

type_synonym val = "nat \<times> mtype"

datatype operation =
  Operation (opName: string) (opOperands: "nat list") (opResults: "val list")
    (opAttrs: "(string \<times> attribute) list") (opRegions: "region list")
and region = Region (regionBlocks: "block list")
and block = Block (blockArgs: "val list") (blockOps: "operation list")

definition getAttr :: "operation \<Rightarrow> string \<Rightarrow> attribute option" where
  "getAttr op k = map_of (opAttrs op) k"

definition getResultTypes :: "operation \<Rightarrow> mtype list" where
  "getResultTypes op = map snd (opResults op)"

text \<open>
  An assertion of the library that fails, a cast to the wrong class or an index past the
  end of an array stops the compiler; each is a value of \<open>crash\<close>.
\<close>

datatype crash = AssertionFailed | BadCast | OutOfRange

section \<open>Building and replacing operations\<close>

text \<open>
  \<open>OperationState\<close> is what a builder fills in: the name of the new operation, its
  operands in the order they were added, its result types, its attributes and its regions.
\<close>

record OperationState =
  osName :: string
  osOperands :: "nat list"
  osTypes :: "mtype list"
  osAttributes :: "(string \<times> attribute) list"
  osRegions :: "region list"

text \<open>
  \<open>rewriter.replaceOpWithNewOp<OpTy>(op, args...)\<close> creates the operation that the builder
  of \<open>OpTy\<close> describes, in the place of \<open>op\<close>, and replaces every result of \<open>op\<close> by
  the result of the new operation at the same position: the uses of the old results now
  refer to the new ones, so the new results take over the handles of the old ones, with
  the types the builder gave. The number of results must agree (the rewriter asserts it).
\<close>

definition replaceOpWithNewOp :: "operation \<Rightarrow> OperationState \<Rightarrow> crash + operation" where
  "replaceOpWithNewOp op st =
     (if length (osTypes st) \<noteq> length (opResults op) then Inl AssertionFailed
      else Inr (Operation (osName st) (osOperands st)
                  (zip (map fst (opResults op)) (osTypes st))
                  (osAttributes st) (osRegions st)))"

subsection \<open>The builders of the destination dialects\<close>

text \<open>
  The builders belong to the destination dialects (func, memref, arith), whose definitions
  are not part of the lowering file. Each is taken with the arguments the lowering passes,
  in their order.
\<close>

definition func_ReturnOp_build :: "mtype list \<Rightarrow> nat list \<Rightarrow> OperationState" where
  "func_ReturnOp_build resultTypes operands =
     \<lparr>osName = ''func.return'', osOperands = operands, osTypes = resultTypes,
      osAttributes = [], osRegions = []\<rparr>"

definition func_CallOp_build :: "attribute \<Rightarrow> mtype list \<Rightarrow> nat list \<Rightarrow> OperationState" where
  "func_CallOp_build symbol results operands =
     \<lparr>osName = ''func.call'', osOperands = operands, osTypes = results,
      osAttributes = [(''callee'', symbol)], osRegions = []\<rparr>"

definition memref_AllocaOp_build :: "mtype \<Rightarrow> attribute option \<Rightarrow> OperationState" where
  "memref_AllocaOp_build memrefType alignment =
     \<lparr>osName = ''memref.alloca'', osOperands = [], osTypes = [memrefType],
      osAttributes = (case alignment of None \<Rightarrow> [] | Some a \<Rightarrow> [(''alignment'', a)]),
      osRegions = []\<rparr>"

text \<open>
  The load builder takes the buffer and gives the result the element type of the buffer's
  type, which it casts to a memref type.
\<close>

definition memref_LoadOp_build :: "val \<Rightarrow> crash + OperationState" where
  "memref_LoadOp_build memref =
     (case snd memref of
        MemRefType shape elementType \<Rightarrow>
          Inr \<lparr>osName = ''memref.load'', osOperands = [fst memref], osTypes = [elementType],
               osAttributes = [], osRegions = []\<rparr>
      | _ \<Rightarrow> Inl BadCast)"

definition memref_StoreOp_build :: "val \<Rightarrow> val \<Rightarrow> OperationState" where
  "memref_StoreOp_build valueToStore memref =
     \<lparr>osName = ''memref.store'', osOperands = [fst valueToStore, fst memref], osTypes = [],
      osAttributes = [], osRegions = []\<rparr>"

definition arith_ConstantOp_build :: "mtype \<Rightarrow> attribute \<Rightarrow> OperationState" where
  "arith_ConstantOp_build ty v =
     \<lparr>osName = ''arith.constant'', osOperands = [], osTypes = [ty],
      osAttributes = [(''value'', v)], osRegions = []\<rparr>"

section \<open>The lowering patterns\<close>

subsection \<open>CIRReturnLowering\<close>

definition CIRReturnLowering :: "operation \<Rightarrow> crash + operation" where
  "CIRReturnLowering op =
     replaceOpWithNewOp op (func_ReturnOp_build (getResultTypes op) (opOperands op))"

subsection \<open>CIRAllocaLowering\<close>

text \<open>
  \<open>op.type()\<close> reads the allocated type from the attribute \<open>type\<close> of the allocation
  (a cast that fails when the attribute is not a type attribute);
  \<open>op.alignmentAttr()\<close> is the optional attribute \<open>alignment\<close>, null when absent.
  \<open>MemRefType::get({}, t)\<close> is the memref type with the empty shape.
\<close>

definition AllocaOp_type :: "operation \<Rightarrow> crash + mtype" where
  "AllocaOp_type op = (case getAttr op ''type'' of Some (TypeAttr t) \<Rightarrow> Inr t | _ \<Rightarrow> Inl BadCast)"

definition AllocaOp_alignmentAttr :: "operation \<Rightarrow> attribute option" where
  "AllocaOp_alignmentAttr op = getAttr op ''alignment''"

definition CIRAllocaLowering :: "operation \<Rightarrow> crash + operation" where
  "CIRAllocaLowering op =
     (case AllocaOp_type op of
        Inl e \<Rightarrow> Inl e
      | Inr t \<Rightarrow>
          (let ty = MemRefType [] t
           in replaceOpWithNewOp op (memref_AllocaOp_build ty (AllocaOp_alignmentAttr op))))"

subsection \<open>CIRLoadLowering and CIRStoreLowering\<close>

text \<open>
  Both are conversion patterns: the driver hands them the operation and \<open>operands\<close>, the
  current values of its operands. \<open>operands[i]\<close> past the end of the array is an
  assertion failure of \<open>ArrayRef\<close>.
\<close>

definition at :: "'a list \<Rightarrow> nat \<Rightarrow> crash + 'a" where
  "at xs i = (if i < length xs then Inr (xs ! i) else Inl OutOfRange)"

definition CIRLoadLowering :: "operation \<Rightarrow> val list \<Rightarrow> crash + operation" where
  "CIRLoadLowering op operands =
     (case at operands 0 of
        Inl e \<Rightarrow> Inl e
      | Inr a \<Rightarrow>
          (case memref_LoadOp_build a of
             Inl e \<Rightarrow> Inl e
           | Inr st \<Rightarrow> replaceOpWithNewOp op st))"

definition CIRStoreLowering :: "operation \<Rightarrow> val list \<Rightarrow> crash + operation" where
  "CIRStoreLowering op operands =
     (case at operands 0 of
        Inl e \<Rightarrow> Inl e
      | Inr v \<Rightarrow>
          (case at operands 1 of
             Inl e \<Rightarrow> Inl e
           | Inr a \<Rightarrow> replaceOpWithNewOp op (memref_StoreOp_build v a)))"

subsection \<open>CIRConstantLowering\<close>

definition CIRConstantLowering :: "operation \<Rightarrow> crash + operation" where
  "CIRConstantLowering op =
     (case (opResults op, getAttr op ''value'') of
        ([r], Some v) \<Rightarrow> replaceOpWithNewOp op (arith_ConstantOp_build (snd r) v)
      | _ \<Rightarrow> Inl AssertionFailed)"

subsection \<open>CIRCallLowering\<close>

text \<open>
  \<open>mlir::SymbolRefAttr::get(Operation *symbol)\<close> is a function of the IR library (declared
  in \<^verbatim>\<open>mlir/IR/BuiltinAttributes.h\<close>, which the lowering includes through the dialect
  headers): it builds a reference to the symbol that the operation \<open>symbol\<close> defines, that
  is, it reads the string attribute \<open>sym_name\<close> of that operation and asserts that the
  operation has one. It does not read any other attribute of the operation.
\<close>

definition SymbolRefAttr_get :: "operation \<Rightarrow> crash + attribute" where
  "SymbolRefAttr_get symbol =
     (case getAttr symbol ''sym_name'' of
        Some (StringAttr symName) \<Rightarrow> Inr (FlatSymbolRefAttr symName)
      | _ \<Rightarrow> Inl AssertionFailed)"

text \<open>The callee of a call operation (\<open>cir.call\<close> or \<open>func.call\<close>) is its attribute \<open>callee\<close>.\<close>

definition getCallee :: "operation \<Rightarrow> attribute option" where
  "getCallee op = getAttr op ''callee''"

definition getArgOperands :: "operation \<Rightarrow> nat list" where
  "getArgOperands op = opOperands op"

definition CIRCallLowering :: "operation \<Rightarrow> crash + operation" where
  "CIRCallLowering op =
     (case SymbolRefAttr_get op of
        Inl e \<Rightarrow> Inl e
      | Inr symbol \<Rightarrow>
          replaceOpWithNewOp op (func_CallOp_build symbol (getResultTypes op) (getArgOperands op)))"

subsection \<open>Cloning a region with a value mapping\<close>

text \<open>
  Modelled from the spec: \<open>Region::cloneInto\<close> and \<open>BlockAndValueMapping\<close> belong to the
  IR library, which is not part of the lowering file. The spec describes the clone of the
  function lowering as a value-remapping deep copy: an explicit map from old handles to new
  handles, built incrementally while cloning in original block order and applied to every
  operand reference during the clone, in one traversal. Every Value the region defines (a
  block argument or a result) gets a new Value of the same type, whose handle is the next
  unused one; an operand is looked up in the map as it stands when its operation is
  cloned, and is kept when the map has no entry for it.
\<close>

type_synonym BlockAndValueMapping = "(nat \<times> nat) list"

type_synonym CloneState = "BlockAndValueMapping \<times> nat"

definition lookupOrDefault :: "BlockAndValueMapping \<Rightarrow> nat \<Rightarrow> nat" where
  "lookupOrDefault mapper v = (case map_of mapper v of Some v' \<Rightarrow> v' | None \<Rightarrow> v)"

fun cloneValues :: "val list \<Rightarrow> CloneState \<Rightarrow> val list \<times> CloneState" where
  "cloneValues [] st = ([], st)"
| "cloneValues ((v, ty) # vs) (mapper, next) =
     (case cloneValues vs ((v, next) # mapper, Suc next) of
        (vs', st') \<Rightarrow> ((next, ty) # vs', st'))"

fun cloneOp :: "operation \<Rightarrow> CloneState \<Rightarrow> operation \<times> CloneState"
and cloneOps :: "operation list \<Rightarrow> CloneState \<Rightarrow> operation list \<times> CloneState"
and cloneBlock :: "block \<Rightarrow> CloneState \<Rightarrow> block \<times> CloneState"
and cloneBlocks :: "block list \<Rightarrow> CloneState \<Rightarrow> block list \<times> CloneState"
and cloneRegion :: "region \<Rightarrow> CloneState \<Rightarrow> region \<times> CloneState"
and cloneRegions :: "region list \<Rightarrow> CloneState \<Rightarrow> region list \<times> CloneState"
where
  "cloneOp (Operation name operands results attrs regions) = (\<lambda>st.
     (case cloneValues results st of
        (results', st1) \<Rightarrow>
          (case cloneRegions regions st1 of
             (regions', st2) \<Rightarrow>
               (Operation name (map (lookupOrDefault (fst st)) operands) results' attrs regions',
                st2))))"
| "cloneOps [] = (\<lambda>st. ([], st))"
| "cloneOps (op # ops) = (\<lambda>st.
     (case cloneOp op st of
        (op', st1) \<Rightarrow> (case cloneOps ops st1 of (ops', st2) \<Rightarrow> (op' # ops', st2))))"
| "cloneBlock (Block args ops) = (\<lambda>st.
     (case cloneValues args st of
        (args', st1) \<Rightarrow> (case cloneOps ops st1 of (ops', st2) \<Rightarrow> (Block args' ops', st2))))"
| "cloneBlocks [] = (\<lambda>st. ([], st))"
| "cloneBlocks (b # bs) = (\<lambda>st.
     (case cloneBlock b st of
        (b', st1) \<Rightarrow> (case cloneBlocks bs st1 of (bs', st2) \<Rightarrow> (b' # bs', st2))))"
| "cloneRegion (Region blocks) = (\<lambda>st.
     (case cloneBlocks blocks st of (blocks', st1) \<Rightarrow> (Region blocks', st1)))"
| "cloneRegions [] = (\<lambda>st. ([], st))"
| "cloneRegions (r # rs) = (\<lambda>st.
     (case cloneRegion r st of
        (r', st1) \<Rightarrow> (case cloneRegions rs st1 of (rs', st2) \<Rightarrow> (r' # rs', st2))))"

text \<open>\<open>src.cloneInto(&dest, mapper)\<close> appends the clones of the blocks of \<open>src\<close> to \<open>dest\<close>.\<close>

definition Region_cloneInto :: "region \<Rightarrow> region \<Rightarrow> CloneState \<Rightarrow> region \<times> CloneState" where
  "Region_cloneInto src dest st =
     (case cloneBlocks (regionBlocks src) st of
        (blocks', st') \<Rightarrow> (Region (regionBlocks dest @ blocks'), st'))"

subsection \<open>CIRFuncLowering\<close>

text \<open>
  \<open>op.getName()\<close> is the symbol name of the function (its string attribute \<open>sym_name\<close>),
  \<open>op.getFunctionType()\<close> its attribute \<open>function_type\<close>, \<open>op.body()\<close> its first
  region. The builder of \<open>func.func\<close> takes the name and the type and gives the new
  function one empty region, which \<open>fn.getBody()\<close> returns. The rewriter is the source
  of new Values: it is the next unused handle.
\<close>

definition FuncOp_getName :: "operation \<Rightarrow> crash + string" where
  "FuncOp_getName op =
     (case getAttr op ''sym_name'' of Some (StringAttr s) \<Rightarrow> Inr s | _ \<Rightarrow> Inl BadCast)"

definition FuncOp_getFunctionType :: "operation \<Rightarrow> crash + mtype" where
  "FuncOp_getFunctionType op =
     (case getAttr op ''function_type'' of
        Some (TypeAttr (FunctionType ins outs)) \<Rightarrow> Inr (FunctionType ins outs)
      | _ \<Rightarrow> Inl BadCast)"

definition func_FuncOp_build :: "string \<Rightarrow> mtype \<Rightarrow> OperationState" where
  "func_FuncOp_build name ty =
     \<lparr>osName = ''func.func'', osOperands = [], osTypes = [],
      osAttributes = [(''sym_name'', StringAttr name), (''function_type'', TypeAttr ty)],
      osRegions = [Region []]\<rparr>"

definition CIRFuncLowering :: "operation \<Rightarrow> nat \<Rightarrow> crash + (operation \<times> nat)" where
  "CIRFuncLowering op rewriter =
     (case FuncOp_getName op of
        Inl e \<Rightarrow> Inl e
      | Inr name \<Rightarrow>
     (case FuncOp_getFunctionType op of
        Inl e \<Rightarrow> Inl e
      | Inr ty \<Rightarrow>
     (case replaceOpWithNewOp op (func_FuncOp_build name ty) of
        Inl e \<Rightarrow> Inl e
      | Inr fn \<Rightarrow>
     (case at (opRegions op) 0 of
        Inl e \<Rightarrow> Inl e
      | Inr srcRegion \<Rightarrow>
     (case at (opRegions fn) 0 of
        Inl e \<Rightarrow> Inl e
      | Inr dstRegion \<Rightarrow>
     (case Region_cloneInto srcRegion dstRegion ([], rewriter) of
        (body, (mapper, rewriter')) \<Rightarrow>
          Inr (Operation (opName fn) (opOperands fn) (opResults fn) (opAttrs fn)
                 ((opRegions fn)[0 := body]), rewriter')))))))"

subsection \<open>The Values a region defines and uses\<close>

text \<open>
  The handles that a piece of IR defines (results and block arguments) and the handles its
  operands refer to, both in program order; and the same piece of IR with every handle
  replaced through a function.
\<close>

fun definedOp :: "operation \<Rightarrow> nat list"
and definedOps :: "operation list \<Rightarrow> nat list"
and definedBlock :: "block \<Rightarrow> nat list"
and definedBlocks :: "block list \<Rightarrow> nat list"
and definedRegion :: "region \<Rightarrow> nat list"
and definedRegions :: "region list \<Rightarrow> nat list"
where
  "definedOp (Operation name operands results attrs regions) =
     map fst results @ definedRegions regions"
| "definedOps [] = []"
| "definedOps (op # ops) = definedOp op @ definedOps ops"
| "definedBlock (Block args ops) = map fst args @ definedOps ops"
| "definedBlocks [] = []"
| "definedBlocks (b # bs) = definedBlock b @ definedBlocks bs"
| "definedRegion (Region blocks) = definedBlocks blocks"
| "definedRegions [] = []"
| "definedRegions (r # rs) = definedRegion r @ definedRegions rs"

fun usedOp :: "operation \<Rightarrow> nat list"
and usedOps :: "operation list \<Rightarrow> nat list"
and usedBlock :: "block \<Rightarrow> nat list"
and usedBlocks :: "block list \<Rightarrow> nat list"
and usedRegion :: "region \<Rightarrow> nat list"
and usedRegions :: "region list \<Rightarrow> nat list"
where
  "usedOp (Operation name operands results attrs regions) = operands @ usedRegions regions"
| "usedOps [] = []"
| "usedOps (op # ops) = usedOp op @ usedOps ops"
| "usedBlock (Block args ops) = usedOps ops"
| "usedBlocks [] = []"
| "usedBlocks (b # bs) = usedBlock b @ usedBlocks bs"
| "usedRegion (Region blocks) = usedBlocks blocks"
| "usedRegions [] = []"
| "usedRegions (r # rs) = usedRegion r @ usedRegions rs"

definition remapValues :: "(nat \<Rightarrow> nat) \<Rightarrow> val list \<Rightarrow> val list" where
  "remapValues f vs = map (\<lambda>(v, ty). (f v, ty)) vs"

fun remapOp :: "(nat \<Rightarrow> nat) \<Rightarrow> operation \<Rightarrow> operation"
and remapOps :: "(nat \<Rightarrow> nat) \<Rightarrow> operation list \<Rightarrow> operation list"
and remapBlock :: "(nat \<Rightarrow> nat) \<Rightarrow> block \<Rightarrow> block"
and remapBlocks :: "(nat \<Rightarrow> nat) \<Rightarrow> block list \<Rightarrow> block list"
and remapRegion :: "(nat \<Rightarrow> nat) \<Rightarrow> region \<Rightarrow> region"
and remapRegions :: "(nat \<Rightarrow> nat) \<Rightarrow> region list \<Rightarrow> region list"
where
  "remapOp f (Operation name operands results attrs regions) =
     Operation name (map f operands) (remapValues f results) attrs (remapRegions f regions)"
| "remapOps f [] = []"
| "remapOps f (op # ops) = remapOp f op # remapOps f ops"
| "remapBlock f (Block args ops) = Block (remapValues f args) (remapOps f ops)"
| "remapBlocks f [] = []"
| "remapBlocks f (b # bs) = remapBlock f b # remapBlocks f bs"
| "remapRegion f (Region blocks) = Region (remapBlocks f blocks)"
| "remapRegions f [] = []"
| "remapRegions f (r # rs) = remapRegion f r # remapRegions f rs"

text \<open>
  The invariant of the data model on operands: every operand refers to a Value defined
  earlier in program order. \<open>seen\<close> holds the handles defined so far.
\<close>

fun dominatedOp :: "nat set \<Rightarrow> operation \<Rightarrow> bool"
and dominatedOps :: "nat set \<Rightarrow> operation list \<Rightarrow> bool"
and dominatedBlock :: "nat set \<Rightarrow> block \<Rightarrow> bool"
and dominatedBlocks :: "nat set \<Rightarrow> block list \<Rightarrow> bool"
and dominatedRegion :: "nat set \<Rightarrow> region \<Rightarrow> bool"
and dominatedRegions :: "nat set \<Rightarrow> region list \<Rightarrow> bool"
where
  "dominatedOp seen (Operation name operands results attrs regions) =
     (list_all (\<lambda>v. v \<in> seen) operands
      \<and> dominatedRegions (seen \<union> set (map fst results)) regions)"
| "dominatedOps seen [] = True"
| "dominatedOps seen (op # ops) =
     (dominatedOp seen op \<and> dominatedOps (seen \<union> set (definedOp op)) ops)"
| "dominatedBlock seen (Block args ops) = dominatedOps (seen \<union> set (map fst args)) ops"
| "dominatedBlocks seen [] = True"
| "dominatedBlocks seen (b # bs) =
     (dominatedBlock seen b \<and> dominatedBlocks (seen \<union> set (definedBlock b)) bs)"
| "dominatedRegion seen (Region blocks) = dominatedBlocks seen blocks"
| "dominatedRegions seen [] = True"
| "dominatedRegions seen (r # rs) =
     (dominatedRegion seen r \<and> dominatedRegions (seen \<union> set (definedRegion r)) rs)"

subsection \<open>Notions for the properties of the clone\<close>

text \<open>
  What one step of the clone does to the state: it defines the handles \<open>ds\<close> anew as
  \<open>ds'\<close>, the next unused handles in order, adds them as keys of the mapping, and leaves
  every other entry of the mapping as it is.
\<close>

definition cloneSpec :: "nat list \<Rightarrow> nat list \<Rightarrow> CloneState \<Rightarrow> CloneState \<Rightarrow> bool" where
  "cloneSpec ds ds' st st' \<longleftrightarrow>
     snd st' = snd st + length ds \<and> ds' = [snd st..<snd st']
     \<and> fst ` set (fst st') = fst ` set (fst st) \<union> set ds
     \<and> (\<forall>k. k \<notin> set ds \<longrightarrow> map_of (fst st') k = map_of (fst st) k)"

definition agreeOn :: "nat set \<Rightarrow> BlockAndValueMapping \<Rightarrow> BlockAndValueMapping \<Rightarrow> bool" where
  "agreeOn S M m \<longleftrightarrow> (\<forall>k\<in>S. map_of M k = map_of m k)"

definition keysOf :: "CloneState \<Rightarrow> nat set" where
  "keysOf st = fst ` set (fst st)"

text \<open>A function with a nested scope, used to run the function pattern.\<close>

definition exampleFunc :: operation where
  "exampleFunc =
     Operation ''cir.func'' [] []
       [(''sym_name'', StringAttr ''foo''),
        (''function_type'', TypeAttr (FunctionType [IntegerType 32] [IntegerType 32]))]
       [Region [Block [(0, IntegerType 32)]
          [Operation ''cir.alloca'' [] [(1, CIRPointerType (IntegerType 32))]
             [(''type'', TypeAttr (IntegerType 32))] [],
           Operation ''cir.store'' [0, 1] [] [] [],
           Operation ''cir.scope'' [] []  []
             [Region [Block []
                [Operation ''cir.load'' [1] [(2, IntegerType 32)] [] [],
                 Operation ''cir.store'' [2, 1] [] [] []]]],
           Operation ''cir.load'' [1] [(3, IntegerType 32)] [] [],
           Operation ''cir.return'' [3] [] [] []]]]"

section \<open>The conversion framework\<close>

datatype LogicalResult = Success | Failure

definition failed :: "LogicalResult \<Rightarrow> bool" where
  "failed r = (r = Failure)"

subsection \<open>Conversion targets\<close>

text \<open>
  Modelled from the spec: \<open>ConversionTarget\<close> is a class of the conversion library, which
  is not part of the lowering file. The spec describes it as a mapping from operation kinds
  to a legality rule (always legal, always illegal, or legal when a predicate holds), set
  up by the pass and read by the driver. A rule is given for one operation
  (\<open>addLegalOp\<close>, \<open>addIllegalOp\<close>) or for every operation of a dialect
  (\<open>addLegalDialect\<close>); the rule of the operation goes first, and an operation that
  neither mentions is not marked at all.
\<close>

datatype LegalizationAction = Legal | Illegal | Dynamic "operation \<Rightarrow> bool"

record ConversionTarget =
  opActions :: "(string \<times> LegalizationAction) list"
  dialectActions :: "(string \<times> LegalizationAction) list"

definition emptyTarget :: ConversionTarget where
  "emptyTarget = \<lparr>opActions = [], dialectActions = []\<rparr>"

definition addLegalOp :: "string \<Rightarrow> ConversionTarget \<Rightarrow> ConversionTarget" where
  "addLegalOp name target = target\<lparr>opActions := (name, Legal) # opActions target\<rparr>"

definition addIllegalOp :: "string \<Rightarrow> ConversionTarget \<Rightarrow> ConversionTarget" where
  "addIllegalOp name target = target\<lparr>opActions := (name, Illegal) # opActions target\<rparr>"

definition addLegalDialect :: "string \<Rightarrow> ConversionTarget \<Rightarrow> ConversionTarget" where
  "addLegalDialect dialect target =
     target\<lparr>dialectActions := (dialect, Legal) # dialectActions target\<rparr>"

definition dialectOf :: "string \<Rightarrow> string" where
  "dialectOf name = takeWhile (\<lambda>c. c \<noteq> CHR ''.'') name"

definition getOpAction :: "ConversionTarget \<Rightarrow> string \<Rightarrow> LegalizationAction option" where
  "getOpAction target name =
     (case map_of (opActions target) name of
        Some a \<Rightarrow> Some a
      | None \<Rightarrow> map_of (dialectActions target) (dialectOf name))"

definition isLegal :: "ConversionTarget \<Rightarrow> operation \<Rightarrow> bool" where
  "isLegal target op =
     (case getOpAction target (opName op) of
        Some Legal \<Rightarrow> True
      | Some (Dynamic p) \<Rightarrow> p op
      | _ \<Rightarrow> False)"

definition isIllegal :: "ConversionTarget \<Rightarrow> operation \<Rightarrow> bool" where
  "isIllegal target op =
     (case getOpAction target (opName op) of
        Some Illegal \<Rightarrow> True
      | Some (Dynamic p) \<Rightarrow> \<not> p op
      | _ \<Rightarrow> False)"

text \<open>
  \<open>LLVMConversionTarget\<close>, of the conversion library: the operations of the LLVM dialect
  and the unrealized conversion cast are legal.
\<close>

definition LLVMConversionTarget :: ConversionTarget where
  "LLVMConversionTarget =
     addLegalOp ''builtin.unrealized_conversion_cast'' (addLegalDialect ''llvm'' emptyTarget)"

subsection \<open>Patterns\<close>

text \<open>
  Modelled from the spec: the pattern classes \<open>OpRewritePattern\<close> and
  \<open>ConversionPattern\<close> belong to the conversion library. The spec describes a pattern as a
  rewrite rule for one operation kind, with a benefit, which is given the operation and
  the current values of its operands, and either declines (match failure) or replaces the
  operation by new operations. A rewrite also leaves the rewriter, the source of new
  Values, in a new state; and a pattern of this file that runs into an assertion of the
  library stops the compiler. The patterns of the lowering always rewrite, into one
  operation; the plain rewrite patterns have the default benefit 1.
\<close>

datatype rewrite_outcome = MatchFailure | Replaced "operation list" nat | Crashed crash

record RewritePattern =
  patName :: string
  patRoot :: string
  patBenefit :: nat
  matchAndRewrite :: "operation \<Rightarrow> val list \<Rightarrow> nat \<Rightarrow> rewrite_outcome"

definition OpRewritePattern ::
  "string \<Rightarrow> string \<Rightarrow> (operation \<Rightarrow> crash + operation) \<Rightarrow> RewritePattern" where
  "OpRewritePattern name root f =
     \<lparr>patName = name, patRoot = root, patBenefit = 1,
      matchAndRewrite = (\<lambda>op operands rewriter.
        case f op of Inl e \<Rightarrow> Crashed e | Inr new \<Rightarrow> Replaced [new] rewriter)\<rparr>"

definition ConversionPattern ::
  "string \<Rightarrow> string \<Rightarrow> nat \<Rightarrow> (operation \<Rightarrow> val list \<Rightarrow> crash + operation) \<Rightarrow> RewritePattern" where
  "ConversionPattern name root benefit f =
     \<lparr>patName = name, patRoot = root, patBenefit = benefit,
      matchAndRewrite = (\<lambda>op operands rewriter.
        case f op operands of Inl e \<Rightarrow> Crashed e | Inr new \<Rightarrow> Replaced [new] rewriter)\<rparr>"

definition CIRReturnLowering_pattern :: RewritePattern where
  "CIRReturnLowering_pattern = OpRewritePattern ''CIRReturnLowering'' ''cir.return'' CIRReturnLowering"

definition CIRCallLowering_pattern :: RewritePattern where
  "CIRCallLowering_pattern = OpRewritePattern ''CIRCallLowering'' ''cir.call'' CIRCallLowering"

definition CIRAllocaLowering_pattern :: RewritePattern where
  "CIRAllocaLowering_pattern = OpRewritePattern ''CIRAllocaLowering'' ''cir.alloca'' CIRAllocaLowering"

definition CIRLoadLowering_pattern :: RewritePattern where
  "CIRLoadLowering_pattern = ConversionPattern ''CIRLoadLowering'' ''cir.load'' 1 CIRLoadLowering"

definition CIRStoreLowering_pattern :: RewritePattern where
  "CIRStoreLowering_pattern = ConversionPattern ''CIRStoreLowering'' ''cir.store'' 1 CIRStoreLowering"

definition CIRConstantLowering_pattern :: RewritePattern where
  "CIRConstantLowering_pattern = OpRewritePattern ''CIRConstantLowering'' ''cir.cst'' CIRConstantLowering"

definition CIRFuncLowering_pattern :: RewritePattern where
  "CIRFuncLowering_pattern =
     \<lparr>patName = ''CIRFuncLowering'', patRoot = ''cir.func'', patBenefit = 1,
      matchAndRewrite = (\<lambda>op operands rewriter.
        case CIRFuncLowering op rewriter of
          Inl e \<Rightarrow> Crashed e
        | Inr (fn, rewriter') \<Rightarrow> Replaced [fn] rewriter')\<rparr>"

definition populateCIRToMemRefConversionPatterns :: "RewritePattern list \<Rightarrow> RewritePattern list" where
  "populateCIRToMemRefConversionPatterns patterns =
     patterns @ [CIRAllocaLowering_pattern, CIRLoadLowering_pattern, CIRStoreLowering_pattern,
                 CIRConstantLowering_pattern]"

subsection \<open>Runs that may not return\<close>

text \<open>
  A run of the driver returns (\<open>Done\<close>), stops the compiler at an assertion
  (\<open>Crash\<close>), or goes on rewriting until the fuel given to it is used up
  (\<open>OutOfFuel\<close>). The passes are written over any driver: \<open>applyConversion mode\<close> stands
  for \<open>applyPartialConversion\<close> and \<open>applyFullConversion\<close>, and returns the verdict and
  the module as the run left it. A pass records the calls it makes to the driver: the mode
  and the names of the patterns.
\<close>

datatype 'a run = Done 'a | Crash crash | OutOfFuel

datatype ConversionMode = PartialConversion | FullConversion

type_synonym driver =
  "ConversionMode \<Rightarrow> operation \<Rightarrow> ConversionTarget \<Rightarrow> RewritePattern list
     \<Rightarrow> (LogicalResult \<times> operation) run"

type_synonym driver_call = "ConversionMode \<times> string list"

section \<open>The passes\<close>

text \<open>
  The targets and the pattern sets that the three passes set up, and \<open>runOnOperation\<close> of
  each pass. \<open>signalPassFailure()\<close> marks the pass as failed and returns; the pass goes
  on. The pattern set of the last pass is filled by functions of the conversion library
  (\<open>populate...ConversionPatterns\<close>) and is a parameter here.
\<close>

definition llvmTarget :: ConversionTarget where
  "llvmTarget = addLegalOp ''builtin.module'' LLVMConversionTarget"

definition memrefTarget :: ConversionTarget where
  "memrefTarget =
     addLegalDialect ''func'' (addLegalDialect ''memref'' (addLegalDialect ''arith''
       (addLegalDialect ''affine'' (addLegalOp ''builtin.module'' emptyTarget))))"

definition fnTarget :: ConversionTarget where
  "fnTarget =
     addIllegalOp ''cir.func''
       (addLegalOp ''func.func'' (addLegalOp ''builtin.module'' emptyTarget))"

definition fnPatterns :: "RewritePattern list" where
  "fnPatterns = [CIRFuncLowering_pattern]"

definition retTarget :: ConversionTarget where
  "retTarget =
     addIllegalOp ''cir.call'' (addIllegalOp ''cir.return''
       (addLegalOp ''func.call'' (addLegalOp ''func.return''
         (addLegalOp ''builtin.module'' emptyTarget))))"

definition retPatterns :: "RewritePattern list" where
  "retPatterns = [CIRReturnLowering_pattern, CIRCallLowering_pattern]"

record PassResult =
  passFailed :: bool
  passModule :: operation
  passCalls :: "driver_call list"

definition ConvertCIRToLLVMPass_runOnOperation ::
  "driver \<Rightarrow> RewritePattern list \<Rightarrow> operation \<Rightarrow> PassResult run" where
  "ConvertCIRToLLVMPass_runOnOperation applyConversion llvmPatterns module =
     (let target = llvmTarget;
          patterns = llvmPatterns
      in case applyConversion FullConversion module target patterns of
           Crash e \<Rightarrow> Crash e
         | OutOfFuel \<Rightarrow> OutOfFuel
         | Done (r, module') \<Rightarrow>
             Done \<lparr>passFailed = failed r, passModule = module',
                   passCalls = [(FullConversion, map patName patterns)]\<rparr>)"

definition ConvertCIRToMemRefPass_runOnOperation :: "driver \<Rightarrow> operation \<Rightarrow> PassResult run" where
  "ConvertCIRToMemRefPass_runOnOperation applyConversion module =
     (let target = memrefTarget;
          patterns = populateCIRToMemRefConversionPatterns []
      in case applyConversion PartialConversion module target patterns of
           Crash e \<Rightarrow> Crash e
         | OutOfFuel \<Rightarrow> OutOfFuel
         | Done (r, module') \<Rightarrow>
             Done \<lparr>passFailed = failed r, passModule = module',
                   passCalls = [(PartialConversion, map patName patterns)]\<rparr>)"

definition ConvertCIRToFuncPass_runOnOperation :: "driver \<Rightarrow> operation \<Rightarrow> PassResult run" where
  "ConvertCIRToFuncPass_runOnOperation applyConversion module =
     (case applyConversion PartialConversion module fnTarget fnPatterns of
        Crash e \<Rightarrow> Crash e
      | OutOfFuel \<Rightarrow> OutOfFuel
      | Done (r1, module1) \<Rightarrow>
          (let failed1 = failed r1
           in case applyConversion PartialConversion module1 retTarget retPatterns of
                Crash e \<Rightarrow> Crash e
              | OutOfFuel \<Rightarrow> OutOfFuel
              | Done (r2, module2) \<Rightarrow>
                  Done \<lparr>passFailed = (failed1 \<or> failed r2), passModule = module2,
                        passCalls =
                          [(PartialConversion, map patName fnPatterns),
                           (PartialConversion, map patName retPatterns)]\<rparr>))"

record Pass =
  getArgument :: string
  runOnOperation :: "operation \<Rightarrow> PassResult run"

definition createConvertCIRToLLVMPass :: "driver \<Rightarrow> RewritePattern list \<Rightarrow> Pass" where
  "createConvertCIRToLLVMPass applyConversion llvmPatterns =
     \<lparr>getArgument = ''cir-to-llvm'',
      runOnOperation = ConvertCIRToLLVMPass_runOnOperation applyConversion llvmPatterns\<rparr>"

definition createConvertCIRToMemRefPass :: "driver \<Rightarrow> Pass" where
  "createConvertCIRToMemRefPass applyConversion =
     \<lparr>getArgument = ''cir-to-memref'',
      runOnOperation = ConvertCIRToMemRefPass_runOnOperation applyConversion\<rparr>"

definition createConvertCIRToFuncPass :: "driver \<Rightarrow> Pass" where
  "createConvertCIRToFuncPass applyConversion =
     \<lparr>getArgument = ''cir-to-func'',
      runOnOperation = ConvertCIRToFuncPass_runOnOperation applyConversion\<rparr>"

section \<open>The pass manager\<close>

text \<open>
  Modelled from the spec: \<open>mlir::PassManager\<close> belongs to the pass library, which is not
  part of the lowering file. The spec describes the pipeline as a sequential state machine
  with the states not started, running (pass index), succeeded and failed (pass index,
  reason): the passes run strictly in the order they were added, on the one module, and
  any pass failure goes directly to the failed state and aborts the remaining passes, with
  no retry and no rollback. The reason recorded here is the argument name of the failing
  pass. The trace lists the passes that ran, each with the calls it made to the driver.
\<close>

datatype PipelineState = NotStarted | Running nat | Succeeded | Failed nat string

record PipelineResult =
  pipelineState :: PipelineState
  pipelineModule :: operation
  pipelineTrace :: "(string \<times> driver_call list) list"

fun runPasses ::
  "nat \<Rightarrow> Pass list \<Rightarrow> operation \<Rightarrow> (string \<times> driver_call list) list \<Rightarrow> PipelineResult run"
where
  "runPasses i [] module trace =
     Done \<lparr>pipelineState = Succeeded, pipelineModule = module, pipelineTrace = trace\<rparr>"
| "runPasses i (p # ps) module trace =
     (case runOnOperation p module of
        Crash e \<Rightarrow> Crash e
      | OutOfFuel \<Rightarrow> OutOfFuel
      | Done r \<Rightarrow>
          (let trace' = trace @ [(getArgument p, passCalls r)]
           in if passFailed r
              then Done \<lparr>pipelineState = Failed i (getArgument p), pipelineModule = passModule r,
                         pipelineTrace = trace'\<rparr>
              else runPasses (Suc i) ps (passModule r) trace'))"

definition PassManager_addPass :: "Pass \<Rightarrow> Pass list \<Rightarrow> Pass list" where
  "PassManager_addPass p pm = pm @ [p]"

definition PassManager_run :: "Pass list \<Rightarrow> operation \<Rightarrow> PipelineResult run" where
  "PassManager_run pm module = runPasses 0 pm module []"

section \<open>lowerFromCIRToLLVMIR\<close>

text \<open>
  \<open>report_fatal_error\<close> prints its message and ends the process; otherwise the function
  returns the handle of the translated module, which as a \<open>unique_ptr\<close> could be null.
  \<open>theModule.verify()\<close> and \<open>translateModuleToLLVMIR\<close> belong to the IR library and
  the translation library and are parameters.
\<close>

datatype 'l lowering = report_fatal_error string | Returned "'l option"

definition loweringPipeline :: "driver \<Rightarrow> RewritePattern list \<Rightarrow> Pass list" where
  "loweringPipeline applyConversion llvmPatterns =
     PassManager_addPass (createConvertCIRToLLVMPass applyConversion llvmPatterns)
       (PassManager_addPass (createConvertCIRToMemRefPass applyConversion)
         (PassManager_addPass (createConvertCIRToFuncPass applyConversion) []))"

definition lowerFromCIRToLLVMIR ::
  "driver \<Rightarrow> RewritePattern list \<Rightarrow> (operation \<Rightarrow> LogicalResult) \<Rightarrow> (operation \<Rightarrow> 'l option)
     \<Rightarrow> operation \<Rightarrow> 'l lowering run" where
  "lowerFromCIRToLLVMIR applyConversion llvmPatterns verify translateModuleToLLVMIR theModule =
     (let pm = loweringPipeline applyConversion llvmPatterns
      in case PassManager_run pm theModule of
           Crash e \<Rightarrow> Crash e
         | OutOfFuel \<Rightarrow> OutOfFuel
         | Done p \<Rightarrow>
             (let result = (pipelineState p = Succeeded)
              in if \<not> result
                 then Done (report_fatal_error
                        ''The pass manager failed to lower CIR to LLVMIR dialect!'')
                 else if failed (verify (pipelineModule p))
                 then Done (report_fatal_error
                        ''Verification of the final LLVMIR dialect failed!'')
                 else (let llvmModule = translateModuleToLLVMIR (pipelineModule p)
                       in if llvmModule = None
                          then Done (report_fatal_error
                                 ''Lowering from LLVMIR dialect to llvm IR failed!'')
                          else Done (Returned llvmModule))))"

section \<open>The conversion driver\<close>

text \<open>
  Modelled from the spec: \<open>applyPartialConversion\<close> and \<open>applyFullConversion\<close> belong to
  the conversion library, which is not part of the lowering file. The spec describes the
  driver as a worklist algorithm: the worklist is seeded with all operations in the module
  in pre-order over the region tree; an operation that the target classifies legal is
  skipped; for any other operation the patterns registered for its kind are tried in
  descending benefit order (ties in registration order), and the first that matches
  commits its replacement: the new operations take the place of the original, the uses of
  its results are rewired, and the new operations are put on the worklist; an operation
  that no pattern matches is left in place. The final check scans the whole module: in
  full mode the run fails when an operation is not legal, and the rewrites stay committed;
  in partial mode it fails only when an operation that the target marks illegal is left.

  The worklist is kept as a stack, so the operations are visited in pre-order and the
  replacement of an operation is visited right after it: this is the recursion below over
  the operations of a block, the blocks of a region and the regions of an operation. The
  module itself is in no block and is never replaced; the final check looks at it too.
  Patterns may produce operations that match again without end, so each rewrite uses one
  unit of fuel. The state of a run holds the current type of each Value (what a pattern is
  handed for an operand), the rewriter and the rewrites committed so far.
\<close>

fun operationsOp :: "operation \<Rightarrow> operation list"
and operationsOps :: "operation list \<Rightarrow> operation list"
and operationsBlock :: "block \<Rightarrow> operation list"
and operationsBlocks :: "block list \<Rightarrow> operation list"
and operationsRegion :: "region \<Rightarrow> operation list"
and operationsRegions :: "region list \<Rightarrow> operation list"
where
  "operationsOp (Operation name operands results attrs regions) =
     Operation name operands results attrs regions # operationsRegions regions"
| "operationsOps [] = []"
| "operationsOps (op # ops) = operationsOp op @ operationsOps ops"
| "operationsBlock (Block args ops) = operationsOps ops"
| "operationsBlocks [] = []"
| "operationsBlocks (b # bs) = operationsBlock b @ operationsBlocks bs"
| "operationsRegion (Region blocks) = operationsBlocks blocks"
| "operationsRegions [] = []"
| "operationsRegions (r # rs) = operationsRegion r @ operationsRegions rs"

fun valuesOp :: "operation \<Rightarrow> val list"
and valuesOps :: "operation list \<Rightarrow> val list"
and valuesBlock :: "block \<Rightarrow> val list"
and valuesBlocks :: "block list \<Rightarrow> val list"
and valuesRegion :: "region \<Rightarrow> val list"
and valuesRegions :: "region list \<Rightarrow> val list"
where
  "valuesOp (Operation name operands results attrs regions) = results @ valuesRegions regions"
| "valuesOps [] = []"
| "valuesOps (op # ops) = valuesOp op @ valuesOps ops"
| "valuesBlock (Block args ops) = args @ valuesOps ops"
| "valuesBlocks [] = []"
| "valuesBlocks (b # bs) = valuesBlock b @ valuesBlocks bs"
| "valuesRegion (Region blocks) = valuesBlocks blocks"
| "valuesRegions [] = []"
| "valuesRegions (r # rs) = valuesRegion r @ valuesRegions rs"

text \<open>The rewriter of a run starts with a handle that the module does not use.\<close>

definition unusedHandle :: "operation \<Rightarrow> nat" where
  "unusedHandle module = Suc (foldr max (definedOp module @ usedOp module) 0)"

record DriverState =
  dsTypes :: "val list"
  dsRewriter :: nat
  dsRewrites :: "(operation \<times> operation list) list"

definition operandValues :: "val list \<Rightarrow> nat list \<Rightarrow> val list" where
  "operandValues types operands =
     map (\<lambda>v. (v, case map_of types v of Some ty \<Rightarrow> ty | None \<Rightarrow> OtherType ''none'')) operands"

definition patternsFor :: "RewritePattern list \<Rightarrow> operation \<Rightarrow> RewritePattern list" where
  "patternsFor patterns op =
     sort_key (\<lambda>p. - int (patBenefit p)) (filter (\<lambda>p. patRoot p = opName op) patterns)"

fun applyPatterns :: "RewritePattern list \<Rightarrow> operation \<Rightarrow> val list \<Rightarrow> nat \<Rightarrow> rewrite_outcome" where
  "applyPatterns [] op operands rewriter = MatchFailure"
| "applyPatterns (p # ps) op operands rewriter =
     (case matchAndRewrite p op operands rewriter of
        MatchFailure \<Rightarrow> applyPatterns ps op operands rewriter
      | Replaced news rewriter' \<Rightarrow> Replaced news rewriter'
      | Crashed e \<Rightarrow> Crashed e)"

definition commit :: "operation \<Rightarrow> operation list \<Rightarrow> nat \<Rightarrow> DriverState \<Rightarrow> DriverState" where
  "commit op news rewriter' st =
     \<lparr>dsTypes = valuesOps news @ dsTypes st, dsRewriter = rewriter',
      dsRewrites = dsRewrites st @ [(op, news)]\<rparr>"

function (sequential) legalizeOp ::
  "nat \<Rightarrow> ConversionTarget \<Rightarrow> RewritePattern list \<Rightarrow> operation \<Rightarrow> DriverState
     \<Rightarrow> (operation list \<times> DriverState) run"
and legalizeOps ::
  "nat \<Rightarrow> ConversionTarget \<Rightarrow> RewritePattern list \<Rightarrow> operation list \<Rightarrow> DriverState
     \<Rightarrow> (operation list \<times> DriverState) run"
and legalizeBlock ::
  "nat \<Rightarrow> ConversionTarget \<Rightarrow> RewritePattern list \<Rightarrow> block \<Rightarrow> DriverState
     \<Rightarrow> (block \<times> DriverState) run"
and legalizeBlocks ::
  "nat \<Rightarrow> ConversionTarget \<Rightarrow> RewritePattern list \<Rightarrow> block list \<Rightarrow> DriverState
     \<Rightarrow> (block list \<times> DriverState) run"
and legalizeRegion ::
  "nat \<Rightarrow> ConversionTarget \<Rightarrow> RewritePattern list \<Rightarrow> region \<Rightarrow> DriverState
     \<Rightarrow> (region \<times> DriverState) run"
and legalizeRegions ::
  "nat \<Rightarrow> ConversionTarget \<Rightarrow> RewritePattern list \<Rightarrow> region list \<Rightarrow> DriverState
     \<Rightarrow> (region list \<times> DriverState) run"
where
  "legalizeOp fuel target patterns (Operation name operands results attrs regions) = (\<lambda>st.
     (let op = Operation name operands results attrs regions;
          outcome =
            (if isLegal target op then MatchFailure
             else applyPatterns (patternsFor patterns op) op
                    (operandValues (dsTypes st) operands) (dsRewriter st))
      in case outcome of
           Crashed e \<Rightarrow> Crash e
         | Replaced news rewriter' \<Rightarrow>
             (if fuel = 0 then OutOfFuel
              else legalizeOps (fuel - 1) target patterns news (commit op news rewriter' st))
         | MatchFailure \<Rightarrow>
             (case legalizeRegions fuel target patterns regions st of
                Crash e \<Rightarrow> Crash e
              | OutOfFuel \<Rightarrow> OutOfFuel
              | Done (regions', st') \<Rightarrow>
                  Done ([Operation name operands results attrs regions'], st'))))"
| "legalizeOps fuel target patterns [] = (\<lambda>st. Done ([], st))"
| "legalizeOps fuel target patterns (op # ops) = (\<lambda>st.
     (case legalizeOp fuel target patterns op st of
        Crash e \<Rightarrow> Crash e
      | OutOfFuel \<Rightarrow> OutOfFuel
      | Done (ops1, st1) \<Rightarrow>
          (case legalizeOps fuel target patterns ops st1 of
             Crash e \<Rightarrow> Crash e
           | OutOfFuel \<Rightarrow> OutOfFuel
           | Done (ops2, st2) \<Rightarrow> Done (ops1 @ ops2, st2))))"
| "legalizeBlock fuel target patterns (Block args ops) = (\<lambda>st.
     (case legalizeOps fuel target patterns ops st of
        Crash e \<Rightarrow> Crash e
      | OutOfFuel \<Rightarrow> OutOfFuel
      | Done (ops', st') \<Rightarrow> Done (Block args ops', st')))"
| "legalizeBlocks fuel target patterns [] = (\<lambda>st. Done ([], st))"
| "legalizeBlocks fuel target patterns (b # bs) = (\<lambda>st.
     (case legalizeBlock fuel target patterns b st of
        Crash e \<Rightarrow> Crash e
      | OutOfFuel \<Rightarrow> OutOfFuel
      | Done (b', st1) \<Rightarrow>
          (case legalizeBlocks fuel target patterns bs st1 of
             Crash e \<Rightarrow> Crash e
           | OutOfFuel \<Rightarrow> OutOfFuel
           | Done (bs', st2) \<Rightarrow> Done (b' # bs', st2))))"
| "legalizeRegion fuel target patterns (Region blocks) = (\<lambda>st.
     (case legalizeBlocks fuel target patterns blocks st of
        Crash e \<Rightarrow> Crash e
      | OutOfFuel \<Rightarrow> OutOfFuel
      | Done (blocks', st') \<Rightarrow> Done (Region blocks', st')))"
| "legalizeRegions fuel target patterns [] = (\<lambda>st. Done ([], st))"
| "legalizeRegions fuel target patterns (r # rs) = (\<lambda>st.
     (case legalizeRegion fuel target patterns r st of
        Crash e \<Rightarrow> Crash e
      | OutOfFuel \<Rightarrow> OutOfFuel
      | Done (r', st1) \<Rightarrow>
          (case legalizeRegions fuel target patterns rs st1 of
             Crash e \<Rightarrow> Crash e
           | OutOfFuel \<Rightarrow> OutOfFuel
           | Done (rs', st2) \<Rightarrow> Done (r' # rs', st2))))"
  by pat_completeness auto

termination
  by (relation "inv_image (less_than <*lex*> less_than)
        (\<lambda>x. case x of
           Inl (Inl (fuel, target, patterns, op)) \<Rightarrow> (fuel, size op)
         | Inl (Inr (Inl (fuel, target, patterns, ops))) \<Rightarrow> (fuel, size_list size ops)
         | Inl (Inr (Inr (fuel, target, patterns, b))) \<Rightarrow> (fuel, size b)
         | Inr (Inl (fuel, target, patterns, bs)) \<Rightarrow> (fuel, size_list size bs)
         | Inr (Inr (Inl (fuel, target, patterns, r))) \<Rightarrow> (fuel, size r)
         | Inr (Inr (Inr (fuel, target, patterns, rs))) \<Rightarrow> (fuel, size_list size rs))")
     auto

definition initialState :: "operation \<Rightarrow> DriverState" where
  "initialState module =
     \<lparr>dsTypes = valuesOp module, dsRewriter = unusedHandle module, dsRewrites = []\<rparr>"

definition drive ::
  "nat \<Rightarrow> ConversionTarget \<Rightarrow> RewritePattern list \<Rightarrow> operation
     \<Rightarrow> (operation \<times> (operation \<times> operation list) list) run" where
  "drive fuel target patterns module =
     (case legalizeRegions fuel target patterns (opRegions module) (initialState module) of
        Crash e \<Rightarrow> Crash e
      | OutOfFuel \<Rightarrow> OutOfFuel
      | Done (regions', st) \<Rightarrow>
          Done (Operation (opName module) (opOperands module) (opResults module)
                  (opAttrs module) regions', dsRewrites st))"

definition finalCheck :: "ConversionMode \<Rightarrow> ConversionTarget \<Rightarrow> operation \<Rightarrow> LogicalResult" where
  "finalCheck mode target module =
     (case mode of
        FullConversion \<Rightarrow>
          if list_all (isLegal target) (operationsOp module) then Success else Failure
      | PartialConversion \<Rightarrow>
          if list_ex (isIllegal target) (operationsOp module) then Failure else Success)"

definition applyConversion ::
  "nat \<Rightarrow> ConversionMode \<Rightarrow> operation \<Rightarrow> ConversionTarget \<Rightarrow> RewritePattern list
     \<Rightarrow> (LogicalResult \<times> operation \<times> (operation \<times> operation list) list) run" where
  "applyConversion fuel mode module target patterns =
     (case drive fuel target patterns module of
        Crash e \<Rightarrow> Crash e
      | OutOfFuel \<Rightarrow> OutOfFuel
      | Done (module', rewrites) \<Rightarrow> Done (finalCheck mode target module', module', rewrites))"

definition conversionDriver :: "nat \<Rightarrow> driver" where
  "conversionDriver fuel mode module target patterns =
     (case applyConversion fuel mode module target patterns of
        Crash e \<Rightarrow> Crash e
      | OutOfFuel \<Rightarrow> OutOfFuel
      | Done (r, module', rewrites) \<Rightarrow> Done (r, module'))"


definition legalModule :: operation where
  "legalModule =
     Operation ''builtin.module'' [] [] []
       [Region [Block []
          [Operation ''llvm.func'' [] [] [(''sym_name'', StringAttr ''f'')]
             [Region [Block []
                [Operation ''llvm.mlir.constant'' [] [(1, IntegerType 32)]
                   [(''value'', IntegerAttr 7)] [],
                 Operation ''llvm.return'' [1] [] [] []]]]]]]"

section \<open>Drivers and modules for running the passes\<close>

text \<open>
  Drivers with a fixed behaviour (one always succeeds, one fails exactly on the call with
  the given pattern names, one succeeds and marks the module with the mode and the
  patterns of the call), the empty module, the trace of a run in which all three passes
  ran, the names of the memory patterns, a verifier and a translation that succeed, and a
  pass that stops the compiler when it runs.
\<close>

definition alwaysSucceeds :: driver where
  "alwaysSucceeds mode module target patterns = Done (Success, module)"

definition failsOn :: "string list \<Rightarrow> driver" where
  "failsOn names mode module target patterns =
     Done (if map patName patterns = names then Failure else Success, module)"

definition emptyModule :: operation where
  "emptyModule = Operation ''builtin.module'' [] [] [] [Region [Block [] []]]"

definition fullTrace :: "RewritePattern list \<Rightarrow> (string \<times> driver_call list) list" where
  "fullTrace llvmPatterns =
     [(''cir-to-func'', [(PartialConversion, [''CIRFuncLowering'']),
                         (PartialConversion, [''CIRReturnLowering'', ''CIRCallLowering''])]),
      (''cir-to-memref'', [(PartialConversion, [''CIRAllocaLowering'', ''CIRLoadLowering'',
                              ''CIRStoreLowering'', ''CIRConstantLowering''])]),
      (''cir-to-llvm'', [(FullConversion, map patName llvmPatterns)])]"






section \<open>Notions for the properties of the driver\<close>





definition grows :: "DriverState \<Rightarrow> DriverState \<Rightarrow> (operation \<times> operation list) list \<Rightarrow> bool" where
  "grows st st' new \<longleftrightarrow> dsRewrites st' = dsRewrites st @ new"



section \<open>Properties of the memory patterns\<close>

text \<open>
  C6. For every \<open>cir.alloca\<close> that the stack-allocation pattern rewrites (an allocation
  with its type attribute and its one result), the pattern produces one
  \<open>memref.alloca\<close> whose result has a rank-0 memref type (empty shape) over the
  allocated element type, and the new operation carries the alignment attribute exactly
  when the original had one, with the same value.
\<close>

theorem CIRAllocaLowering_rank0_same_element_type:
  assumes "opName op = ''cir.alloca''"
    and "getAttr op ''type'' = Some (TypeAttr t)"
    and "opResults op = [(r, pty)]"
  shows "\<exists>new. CIRAllocaLowering op = Inr new
           \<and> opName new = ''memref.alloca''
           \<and> opResults new = [(r, MemRefType [] t)]
           \<and> getAttr new ''alignment'' = getAttr op ''alignment''
           \<and> opOperands new = [] \<and> opRegions new = []"
  using assms
  by (cases "getAttr op ''alignment''")
     (simp_all add: CIRAllocaLowering_def AllocaOp_type_def AllocaOp_alignmentAttr_def
        memref_AllocaOp_build_def replaceOpWithNewOp_def getAttr_def)

theorem CIRAllocaLowering_rank0_same_element_type_witness:
  "\<exists>new. CIRAllocaLowering
      (Operation ''cir.alloca'' [] [(7, CIRPointerType (IntegerType 32))]
         [(''type'', TypeAttr (IntegerType 32)), (''alignment'', IntegerAttr 4)] []) = Inr new
     \<and> opName new = ''memref.alloca''
     \<and> opResults new = [(7, MemRefType [] (IntegerType 32))]
     \<and> getAttr new ''alignment'' = Some (IntegerAttr 4)"
  using CIRAllocaLowering_rank0_same_element_type
    [of "Operation ''cir.alloca'' [] [(7, CIRPointerType (IntegerType 32))]
           [(''type'', TypeAttr (IntegerType 32)), (''alignment'', IntegerAttr 4)] []"
        "IntegerType 32" 7 "CIRPointerType (IntegerType 32)"]
  by (auto simp: getAttr_def)

text \<open>
  C5. The load and store patterns rewrite one operation into one operation of the memory
  dialect and keep the order of the operands. The driver hands the pattern the current
  values of the operands of the operation, in their order. A \<open>cir.load\<close> has the address
  as its only operand: every rewrite gives a \<open>memref.load\<close> whose first and only operand
  is the address, and the rewrite succeeds when the address is a memref. A \<open>cir.store\<close>
  has the value and then the address: every rewrite gives a \<open>memref.store\<close> whose
  operands are the value and then the address, and the rewrite succeeds for every store
  (an operation without results).
\<close>

theorem load_store_lowering_operand_order:
  assumes "map fst operands = opOperands op"
  shows "(opOperands op = [addr] \<longrightarrow>
            (\<forall>new. CIRLoadLowering op operands = Inr new \<longrightarrow>
               opName new = ''memref.load'' \<and> opOperands new = [addr]
               \<and> map fst (opResults new) = map fst (opResults op))
          \<and> (\<forall>r t sh et. opResults op = [(r, t)] \<and> operands = [(addr, MemRefType sh et)] \<longrightarrow>
               CIRLoadLowering op operands = Inr (Operation ''memref.load'' [addr] [(r, et)] [] [])))
       \<and> (opOperands op = [v, a] \<longrightarrow>
            (\<forall>new. CIRStoreLowering op operands = Inr new \<longrightarrow>
               opName new = ''memref.store'' \<and> opOperands new = [v, a] \<and> opResults new = [])
          \<and> (opResults op = [] \<longrightarrow>
               CIRStoreLowering op operands = Inr (Operation ''memref.store'' [v, a] [] [] [])))"
proof -
  have ld: "opName new = ''memref.load'' \<and> opOperands new = [addr]
            \<and> map fst (opResults new) = map fst (opResults op)"
    if "opOperands op = [addr]" "CIRLoadLowering op operands = Inr new" for new
  proof -
    from that(1) assms obtain ty where o: "operands = [(addr, ty)]"
      by (cases operands) auto
    from that(2) o show ?thesis
      by (cases ty)
         (auto simp: CIRLoadLowering_def at_def memref_LoadOp_build_def replaceOpWithNewOp_def
            split: if_splits)
  qed
  have ld_ok: "CIRLoadLowering op operands = Inr (Operation ''memref.load'' [addr] [(r, et)] [] [])"
    if "opResults op = [(r, t)]" "operands = [(addr, MemRefType sh et)]" for r t sh et
    using that
    by (simp add: CIRLoadLowering_def at_def memref_LoadOp_build_def replaceOpWithNewOp_def)
  have st_shape: "\<exists>tv ta. operands = [(v, tv), (a, ta)]" if "opOperands op = [v, a]"
  proof -
    from that assms have "map fst operands = [v, a]" by simp
    then show ?thesis by (cases operands; cases "tl operands") auto
  qed
  have st: "opName new = ''memref.store'' \<and> opOperands new = [v, a] \<and> opResults new = []"
    if "opOperands op = [v, a]" "CIRStoreLowering op operands = Inr new" for new
  proof -
    from st_shape [OF that(1)] obtain tv ta where o: "operands = [(v, tv), (a, ta)]" by blast
    from that(2) o show ?thesis
      by (auto simp: CIRStoreLowering_def at_def memref_StoreOp_build_def replaceOpWithNewOp_def
            split: if_splits)
  qed
  have st_ok: "CIRStoreLowering op operands = Inr (Operation ''memref.store'' [v, a] [] [] [])"
    if "opOperands op = [v, a]" "opResults op = []"
  proof -
    from st_shape [OF that(1)] obtain tv ta where o: "operands = [(v, tv), (a, ta)]" by blast
    from that(2) o show ?thesis
      by (simp add: CIRStoreLowering_def at_def memref_StoreOp_build_def replaceOpWithNewOp_def)
  qed
  from ld ld_ok st st_ok show ?thesis by blast
qed

theorem load_store_lowering_operand_order_witness:
  "CIRLoadLowering (Operation ''cir.load'' [7] [(8, IntegerType 32)] [] [])
       [(7, MemRefType [] (IntegerType 32))]
     = Inr (Operation ''memref.load'' [7] [(8, IntegerType 32)] [] [])
   \<and> CIRStoreLowering (Operation ''cir.store'' [5, 7] [] [] [])
       [(5, IntegerType 32), (7, MemRefType [] (IntegerType 32))]
     = Inr (Operation ''memref.store'' [5, 7] [] [] [])"
proof -
  have "CIRLoadLowering (Operation ''cir.load'' [7] [(8, IntegerType 32)] [] [])
       [(7, MemRefType [] (IntegerType 32))]
     = Inr (Operation ''memref.load'' [7] [(8, IntegerType 32)] [] [])"
    using load_store_lowering_operand_order
      [of "[(7, MemRefType [] (IntegerType 32))]"
          "Operation ''cir.load'' [7] [(8, IntegerType 32)] [] []" 7]
    by simp
  moreover have "CIRStoreLowering (Operation ''cir.store'' [5, 7] [] [] [])
       [(5, IntegerType 32), (7, MemRefType [] (IntegerType 32))]
     = Inr (Operation ''memref.store'' [5, 7] [] [] [])"
    using load_store_lowering_operand_order
      [of "[(5, IntegerType 32), (7, MemRefType [] (IntegerType 32))]"
          "Operation ''cir.store'' [5, 7] [] [] []" _ 5 7]
    by simp
  ultimately show ?thesis by simp
qed

section \<open>The call pattern\<close>

text \<open>
  Whenever the call pattern rewrites, the callee of the new call is the symbol name of the
  original operation itself; the arguments and the result types are those of the original.
\<close>

lemma CIRCallLowering_rewrite:
  assumes "CIRCallLowering op = Inr new"
  shows "\<exists>s. getAttr op ''sym_name'' = Some (StringAttr s)
           \<and> opName new = ''func.call''
           \<and> getCallee new = Some (FlatSymbolRefAttr s)
           \<and> opOperands new = getArgOperands op
           \<and> getResultTypes new = getResultTypes op"
  using assms
  by (auto simp: CIRCallLowering_def SymbolRefAttr_get_def func_CallOp_build_def
        replaceOpWithNewOp_def getCallee_def getAttr_def getResultTypes_def getArgOperands_def
        split: option.splits attribute.splits sum.splits if_splits)

text \<open>
  C2 (the code departs from the claim). The call pattern builds the callee of the new
  \<open>func.call\<close> with \<open>SymbolRefAttr::get(op)\<close>, the symbol that the call operation itself
  would define, and never reads the \<open>callee\<close> attribute of the \<open>cir.call\<close>. On the call
  \<open>cir.call @foo(%1, %2) : (i32, i32) -> i32\<close>, which has a callee and (as every call) no
  symbol name of its own, the rewrite stops at the assertion of the library and produces
  no \<open>func.call\<close> for \<open>@foo\<close>; were the call to carry a symbol name \<open>bar\<close>, the new
  call would call \<open>@bar\<close>. The arguments and the result types are passed through.
\<close>

theorem CIRCallLowering_ignores_callee:
  "CIRCallLowering
     (Operation ''cir.call'' [1, 2] [(3, IntegerType 32)]
        [(''callee'', FlatSymbolRefAttr ''foo'')] [])
     = Inl AssertionFailed
   \<and> CIRCallLowering
     (Operation ''cir.call'' [1, 2] [(3, IntegerType 32)]
        [(''callee'', FlatSymbolRefAttr ''foo''), (''sym_name'', StringAttr ''bar'')] [])
     = Inr (Operation ''func.call'' [1, 2] [(3, IntegerType 32)]
        [(''callee'', FlatSymbolRefAttr ''bar'')] [])"
  by (simp add: CIRCallLowering_def SymbolRefAttr_get_def getAttr_def func_CallOp_build_def
        replaceOpWithNewOp_def getResultTypes_def getArgOperands_def)

section \<open>The function pattern and the clone of the body\<close>

lemmas ir_induct = definedOp_definedOps_definedBlock_definedBlocks_definedRegion_definedRegions.induct

lemma cloneSpec_Nil: "cloneSpec [] [] st st"
  by (simp add: cloneSpec_def)

lemma cloneSpec_seq:
  assumes "cloneSpec d1 e1 st st1" "cloneSpec d2 e2 st1 st2"
  shows "cloneSpec (d1 @ d2) (e1 @ e2) st st2"
proof -
  have "[snd st..<snd st + length d1] @ [snd st + length d1..<snd st + length d1 + length d2]
        = [snd st..<snd st + length d1 + length d2]"
    by (metis le_add1 upt_add_eq_append)
  with assms show ?thesis
    by (auto simp: cloneSpec_def)
qed

lemma cloneValues_spec:
  "cloneValues vs st = (vs', st') \<Longrightarrow>
     cloneSpec (map fst vs) (map fst vs') st st' \<and> map snd vs' = map snd vs"
proof (induction vs arbitrary: st vs' st')
  case Nil
  then show ?case by (simp add: cloneSpec_Nil)
next
  case (Cons a vs)
  obtain v ty where a: "a = (v, ty)" by (cases a)
  obtain m n where st: "st = (m, n)" by (cases st)
  obtain vs1 st1 where r: "cloneValues vs ((v, n) # m, Suc n) = (vs1, st1)"
    by (cases "cloneValues vs ((v, n) # m, Suc n)")
  from Cons.prems a st r have e: "vs' = (n, ty) # vs1" "st' = st1" by auto
  have one: "cloneSpec [v] [n] st ((v, n) # m, Suc n)"
    by (auto simp: cloneSpec_def st)
  from Cons.IH [OF r] have rest: "cloneSpec (map fst vs) (map fst vs1) ((v, n) # m, Suc n) st1"
    and ty: "map snd vs1 = map snd vs" by simp_all
  from cloneSpec_seq [OF one rest] ty e a show ?case by simp
qed

lemma clone_spec:
  "\<forall>st x' st'. cloneOp op st = (x', st') \<longrightarrow> cloneSpec (definedOp op) (definedOp x') st st'"
  "\<forall>st x' st'. cloneOps ops st = (x', st') \<longrightarrow> cloneSpec (definedOps ops) (definedOps x') st st'"
  "\<forall>st x' st'. cloneBlock b st = (x', st') \<longrightarrow> cloneSpec (definedBlock b) (definedBlock x') st st'"
  "\<forall>st x' st'. cloneBlocks bs st = (x', st') \<longrightarrow> cloneSpec (definedBlocks bs) (definedBlocks x') st st'"
  "\<forall>st x' st'. cloneRegion r st = (x', st') \<longrightarrow> cloneSpec (definedRegion r) (definedRegion x') st st'"
  "\<forall>st x' st'. cloneRegions rs st = (x', st') \<longrightarrow> cloneSpec (definedRegions rs) (definedRegions x') st st'"
proof (induction op and ops and b and bs and r and rs rule: ir_induct)
  case (1 name operands results attrs regions)
  show ?case
  proof (intro allI impI)
    fix st x' st'
    assume c: "cloneOp (Operation name operands results attrs regions) st = (x', st')"
    obtain rs1 st1 where v: "cloneValues results st = (rs1, st1)" by (cases "cloneValues results st")
    obtain gs st2 where g: "cloneRegions regions st1 = (gs, st2)" by (cases "cloneRegions regions st1")
    from c v g have e: "x' = Operation name (map (lookupOrDefault (fst st)) operands) rs1 attrs gs"
      "st' = st2" by auto
    from cloneValues_spec [OF v] have V: "cloneSpec (map fst results) (map fst rs1) st st1" by simp
    from 1 g have G: "cloneSpec (definedRegions regions) (definedRegions gs) st1 st2" by blast
    from cloneSpec_seq [OF V G] e
    show "cloneSpec (definedOp (Operation name operands results attrs regions)) (definedOp x') st st'"
      by simp
  qed
next
  case 2
  show ?case by (simp add: cloneSpec_Nil)
next
  case (3 op ops)
  show ?case
  proof (intro allI impI)
    fix st x' st'
    assume c: "cloneOps (op # ops) st = (x', st')"
    obtain a st1 where v: "cloneOp op st = (a, st1)" by (cases "cloneOp op st")
    obtain gs st2 where g: "cloneOps ops st1 = (gs, st2)" by (cases "cloneOps ops st1")
    from c v g have e: "x' = a # gs" "st' = st2" by auto
    from 3 v have V: "cloneSpec (definedOp op) (definedOp a) st st1" by blast
    from 3 g have G: "cloneSpec (definedOps ops) (definedOps gs) st1 st2" by blast
    from cloneSpec_seq [OF V G] e
    show "cloneSpec (definedOps (op # ops)) (definedOps x') st st'" by simp
  qed
next
  case (4 args ops)
  show ?case
  proof (intro allI impI)
    fix st x' st'
    assume c: "cloneBlock (Block args ops) st = (x', st')"
    obtain rs1 st1 where v: "cloneValues args st = (rs1, st1)" by (cases "cloneValues args st")
    obtain gs st2 where g: "cloneOps ops st1 = (gs, st2)" by (cases "cloneOps ops st1")
    from c v g have e: "x' = Block rs1 gs" "st' = st2" by auto
    from cloneValues_spec [OF v] have V: "cloneSpec (map fst args) (map fst rs1) st st1" by simp
    from 4 g have G: "cloneSpec (definedOps ops) (definedOps gs) st1 st2" by blast
    from cloneSpec_seq [OF V G] e
    show "cloneSpec (definedBlock (Block args ops)) (definedBlock x') st st'" by simp
  qed
next
  case 5
  show ?case by (simp add: cloneSpec_Nil)
next
  case (6 b bs)
  show ?case
  proof (intro allI impI)
    fix st x' st'
    assume c: "cloneBlocks (b # bs) st = (x', st')"
    obtain a st1 where v: "cloneBlock b st = (a, st1)" by (cases "cloneBlock b st")
    obtain gs st2 where g: "cloneBlocks bs st1 = (gs, st2)" by (cases "cloneBlocks bs st1")
    from c v g have e: "x' = a # gs" "st' = st2" by auto
    from 6 v have V: "cloneSpec (definedBlock b) (definedBlock a) st st1" by blast
    from 6 g have G: "cloneSpec (definedBlocks bs) (definedBlocks gs) st1 st2" by blast
    from cloneSpec_seq [OF V G] e
    show "cloneSpec (definedBlocks (b # bs)) (definedBlocks x') st st'" by simp
  qed
next
  case (7 blocks)
  show ?case
  proof (intro allI impI)
    fix st x' st'
    assume c: "cloneRegion (Region blocks) st = (x', st')"
    obtain gs st2 where g: "cloneBlocks blocks st = (gs, st2)" by (cases "cloneBlocks blocks st")
    from c g have e: "x' = Region gs" "st' = st2" by auto
    from 7 g have "cloneSpec (definedBlocks blocks) (definedBlocks gs) st st2" by blast
    with e show "cloneSpec (definedRegion (Region blocks)) (definedRegion x') st st'" by simp
  qed
next
  case 8
  show ?case by (simp add: cloneSpec_Nil)
next
  case (9 r rs)
  show ?case
  proof (intro allI impI)
    fix st x' st'
    assume c: "cloneRegions (r # rs) st = (x', st')"
    obtain a st1 where v: "cloneRegion r st = (a, st1)" by (cases "cloneRegion r st")
    obtain gs st2 where g: "cloneRegions rs st1 = (gs, st2)" by (cases "cloneRegions rs st1")
    from c v g have e: "x' = a # gs" "st' = st2" by auto
    from 9 v have V: "cloneSpec (definedRegion r) (definedRegion a) st st1" by blast
    from 9 g have G: "cloneSpec (definedRegions rs) (definedRegions gs) st1 st2" by blast
    from cloneSpec_seq [OF V G] e
    show "cloneSpec (definedRegions (r # rs)) (definedRegions x') st st'" by simp
  qed
qed

lemma cloneSpec_keys: "cloneSpec ds ds' st st' \<Longrightarrow> keysOf st' = keysOf st \<union> set ds"
  by (simp add: cloneSpec_def keysOf_def)

lemma cloneSpec_agree:
  "cloneSpec ds ds' st st' \<Longrightarrow> agreeOn S M (fst st') \<Longrightarrow> S \<inter> set ds = {} \<Longrightarrow> agreeOn S M (fst st)"
  by (auto simp: cloneSpec_def agreeOn_def)

lemma agreeOn_mono: "agreeOn S M m \<Longrightarrow> T \<subseteq> S \<Longrightarrow> agreeOn T M m"
  by (auto simp: agreeOn_def)

lemma lookup_agree:
  "agreeOn S M m \<Longrightarrow> set xs \<subseteq> S \<Longrightarrow> map (lookupOrDefault m) xs = map (lookupOrDefault M) xs"
  by (auto simp: agreeOn_def lookupOrDefault_def)

lemma cloneValues_remap:
  "cloneValues vs st = (vs', st') \<Longrightarrow> distinct (map fst vs) \<Longrightarrow>
   agreeOn (set (map fst vs)) M (fst st') \<Longrightarrow> vs' = remapValues (lookupOrDefault M) vs"
proof (induction vs arbitrary: st vs' st')
  case Nil
  then show ?case by (simp add: remapValues_def)
next
  case (Cons a vs)
  obtain v ty where a: "a = (v, ty)" by (cases a)
  obtain m n where st: "st = (m, n)" by (cases st)
  obtain vs1 st1 where r: "cloneValues vs ((v, n) # m, Suc n) = (vs1, st1)"
    by (cases "cloneValues vs ((v, n) # m, Suc n)")
  from Cons.prems(1) a st r have e: "vs' = (n, ty) # vs1" "st' = st1" by auto
  from Cons.prems(2) a have d: "distinct (map fst vs)" "v \<notin> set (map fst vs)" by auto
  from Cons.prems(3) e a have ag: "agreeOn (set (map fst vs)) M (fst st1)" "map_of M v = map_of (fst st1) v"
    by (auto simp: agreeOn_def)
  from cloneValues_spec [OF r] d(2) have "map_of (fst st1) v = Some n"
    by (auto simp: cloneSpec_def)
  with ag(2) have "lookupOrDefault M v = n" by (simp add: lookupOrDefault_def)
  moreover from Cons.IH [OF r d(1) ag(1)] have "vs1 = remapValues (lookupOrDefault M) vs" .
  ultimately show ?case using e a by (simp add: remapValues_def)
qed

lemma clone_seq_facts:
  assumes V: "cloneSpec d1 e1 st st1" and G: "cloneSpec d2 e2 st1 st2"
    and dist: "distinct (d1 @ d2)" and disj: "set (d1 @ d2) \<inter> keysOf st = {}"
    and ag: "agreeOn (keysOf st \<union> set (d1 @ d2)) M (fst st2)"
  shows "agreeOn (keysOf st \<union> set d1) M (fst st1)"
    and "distinct d1" and "set d1 \<inter> keysOf st = {}"
    and "distinct d2" and "set d2 \<inter> keysOf st1 = {}"
    and "agreeOn (keysOf st1 \<union> set d2) M (fst st2)"
    and "keysOf st1 = keysOf st \<union> set d1"
proof -
  show k: "keysOf st1 = keysOf st \<union> set d1" by (rule cloneSpec_keys [OF V])
  from dist show "distinct d1" "distinct d2" by simp_all
  from disj show "set d1 \<inter> keysOf st = {}" by auto
  from dist disj k show "set d2 \<inter> keysOf st1 = {}" by auto
  from ag k show "agreeOn (keysOf st1 \<union> set d2) M (fst st2)"
    by (auto simp: agreeOn_def)
  have "agreeOn (keysOf st \<union> set d1) M (fst st2)"
    using ag by (auto simp: agreeOn_def)
  moreover have "(keysOf st \<union> set d1) \<inter> set d2 = {}" using dist disj by auto
  ultimately show "agreeOn (keysOf st \<union> set d1) M (fst st1)"
    by (rule cloneSpec_agree [OF G])
qed

lemma clone_remap:
  "\<forall>st x' st'. cloneOp op st = (x', st') \<longrightarrow> dominatedOp (keysOf st) op
      \<longrightarrow> distinct (definedOp op) \<longrightarrow> set (definedOp op) \<inter> keysOf st = {}
      \<longrightarrow> agreeOn (keysOf st \<union> set (definedOp op)) M (fst st')
      \<longrightarrow> x' = remapOp (lookupOrDefault M) op"
  "\<forall>st x' st'. cloneOps ops st = (x', st') \<longrightarrow> dominatedOps (keysOf st) ops
      \<longrightarrow> distinct (definedOps ops) \<longrightarrow> set (definedOps ops) \<inter> keysOf st = {}
      \<longrightarrow> agreeOn (keysOf st \<union> set (definedOps ops)) M (fst st')
      \<longrightarrow> x' = remapOps (lookupOrDefault M) ops"
  "\<forall>st x' st'. cloneBlock b st = (x', st') \<longrightarrow> dominatedBlock (keysOf st) b
      \<longrightarrow> distinct (definedBlock b) \<longrightarrow> set (definedBlock b) \<inter> keysOf st = {}
      \<longrightarrow> agreeOn (keysOf st \<union> set (definedBlock b)) M (fst st')
      \<longrightarrow> x' = remapBlock (lookupOrDefault M) b"
  "\<forall>st x' st'. cloneBlocks bs st = (x', st') \<longrightarrow> dominatedBlocks (keysOf st) bs
      \<longrightarrow> distinct (definedBlocks bs) \<longrightarrow> set (definedBlocks bs) \<inter> keysOf st = {}
      \<longrightarrow> agreeOn (keysOf st \<union> set (definedBlocks bs)) M (fst st')
      \<longrightarrow> x' = remapBlocks (lookupOrDefault M) bs"
  "\<forall>st x' st'. cloneRegion r st = (x', st') \<longrightarrow> dominatedRegion (keysOf st) r
      \<longrightarrow> distinct (definedRegion r) \<longrightarrow> set (definedRegion r) \<inter> keysOf st = {}
      \<longrightarrow> agreeOn (keysOf st \<union> set (definedRegion r)) M (fst st')
      \<longrightarrow> x' = remapRegion (lookupOrDefault M) r"
  "\<forall>st x' st'. cloneRegions rs st = (x', st') \<longrightarrow> dominatedRegions (keysOf st) rs
      \<longrightarrow> distinct (definedRegions rs) \<longrightarrow> set (definedRegions rs) \<inter> keysOf st = {}
      \<longrightarrow> agreeOn (keysOf st \<union> set (definedRegions rs)) M (fst st')
      \<longrightarrow> x' = remapRegions (lookupOrDefault M) rs"
proof (induction op and ops and b and bs and r and rs rule: ir_induct)
  case (1 name operands results attrs regions)
  show ?case
  proof (intro allI impI)
    fix st x' st'
    assume c: "cloneOp (Operation name operands results attrs regions) st = (x', st')"
      and dom: "dominatedOp (keysOf st) (Operation name operands results attrs regions)"
      and dist: "distinct (definedOp (Operation name operands results attrs regions))"
      and disj: "set (definedOp (Operation name operands results attrs regions)) \<inter> keysOf st = {}"
      and ag: "agreeOn (keysOf st \<union> set (definedOp (Operation name operands results attrs regions))) M (fst st')"
    obtain rs1 st1 where v: "cloneValues results st = (rs1, st1)" by (cases "cloneValues results st")
    obtain gs st2 where g: "cloneRegions regions st1 = (gs, st2)" by (cases "cloneRegions regions st1")
    from c v g have e: "x' = Operation name (map (lookupOrDefault (fst st)) operands) rs1 attrs gs"
      "st' = st2" by auto
    from cloneValues_spec [OF v] have V: "cloneSpec (map fst results) (map fst rs1) st st1" by simp
    from clone_spec(6) g have G: "cloneSpec (definedRegions regions) (definedRegions gs) st1 st2" by blast
    from dist have dist': "distinct (map fst results @ definedRegions regions)" by simp
    from disj have disj': "set (map fst results @ definedRegions regions) \<inter> keysOf st = {}" by simp
    from ag e have ag': "agreeOn (keysOf st \<union> set (map fst results @ definedRegions regions)) M (fst st2)" by simp
    note F = clone_seq_facts [OF V G dist' disj' ag']
    from dom have ops: "set operands \<subseteq> keysOf st"
      and domr: "dominatedRegions (keysOf st \<union> set (map fst results)) regions"
      by (auto simp: list_all_iff)
    have a0: "agreeOn (keysOf st) M (fst st)"
    proof (rule cloneSpec_agree [OF V])
      show "agreeOn (keysOf st) M (fst st1)" using F(1) by (rule agreeOn_mono) simp
      show "keysOf st \<inter> set (map fst results) = {}" using F(3) by auto
    qed
    have o: "map (lookupOrDefault (fst st)) operands = map (lookupOrDefault M) operands"
      by (rule lookup_agree [OF a0 ops])
    have "agreeOn (set (map fst results)) M (fst st1)" using F(1) by (rule agreeOn_mono) simp
    from cloneValues_remap [OF v F(2) this] have r: "rs1 = remapValues (lookupOrDefault M) results" .
    from domr F(7) have "dominatedRegions (keysOf st1) regions" by simp
    with 1 g F(4,5,6) have "gs = remapRegions (lookupOrDefault M) regions" by blast
    with e o r show "x' = remapOp (lookupOrDefault M) (Operation name operands results attrs regions)"
      by simp
  qed
next
  case 2
  show ?case by simp
next
  case (3 op ops)
  show ?case
  proof (intro allI impI)
    fix st x' st'
    assume c: "cloneOps (op # ops) st = (x', st')"
      and dom: "dominatedOps (keysOf st) (op # ops)"
      and dist: "distinct (definedOps (op # ops))"
      and disj: "set (definedOps (op # ops)) \<inter> keysOf st = {}"
      and ag: "agreeOn (keysOf st \<union> set (definedOps (op # ops))) M (fst st')"
    obtain a st1 where v: "cloneOp op st = (a, st1)" by (cases "cloneOp op st")
    obtain gs st2 where g: "cloneOps ops st1 = (gs, st2)" by (cases "cloneOps ops st1")
    from c v g have e: "x' = a # gs" "st' = st2" by auto
    from clone_spec(1) v have V: "cloneSpec (definedOp op) (definedOp a) st st1" by blast
    from clone_spec(2) g have G: "cloneSpec (definedOps ops) (definedOps gs) st1 st2" by blast
    from dist have dist': "distinct (definedOp op @ definedOps ops)" by simp
    from disj have disj': "set (definedOp op @ definedOps ops) \<inter> keysOf st = {}" by simp
    from ag e have ag': "agreeOn (keysOf st \<union> set (definedOp op @ definedOps ops)) M (fst st2)" by simp
    note F = clone_seq_facts [OF V G dist' disj' ag']
    from dom have d1: "dominatedOp (keysOf st) op"
      and d2: "dominatedOps (keysOf st \<union> set (definedOp op)) ops" by simp_all
    from 3 v d1 F(1,2,3) have A: "a = remapOp (lookupOrDefault M) op" by blast
    from d2 F(7) have "dominatedOps (keysOf st1) ops" by simp
    with 3 g F(4,5,6) have "gs = remapOps (lookupOrDefault M) ops" by blast
    with A e show "x' = remapOps (lookupOrDefault M) (op # ops)" by simp
  qed
next
  case (4 args ops)
  show ?case
  proof (intro allI impI)
    fix st x' st'
    assume c: "cloneBlock (Block args ops) st = (x', st')"
      and dom: "dominatedBlock (keysOf st) (Block args ops)"
      and dist: "distinct (definedBlock (Block args ops))"
      and disj: "set (definedBlock (Block args ops)) \<inter> keysOf st = {}"
      and ag: "agreeOn (keysOf st \<union> set (definedBlock (Block args ops))) M (fst st')"
    obtain rs1 st1 where v: "cloneValues args st = (rs1, st1)" by (cases "cloneValues args st")
    obtain gs st2 where g: "cloneOps ops st1 = (gs, st2)" by (cases "cloneOps ops st1")
    from c v g have e: "x' = Block rs1 gs" "st' = st2" by auto
    from cloneValues_spec [OF v] have V: "cloneSpec (map fst args) (map fst rs1) st st1" by simp
    from clone_spec(2) g have G: "cloneSpec (definedOps ops) (definedOps gs) st1 st2" by blast
    from dist have dist': "distinct (map fst args @ definedOps ops)" by simp
    from disj have disj': "set (map fst args @ definedOps ops) \<inter> keysOf st = {}" by simp
    from ag e have ag': "agreeOn (keysOf st \<union> set (map fst args @ definedOps ops)) M (fst st2)" by simp
    note F = clone_seq_facts [OF V G dist' disj' ag']
    from dom have domr: "dominatedOps (keysOf st \<union> set (map fst args)) ops" by simp
    have "agreeOn (set (map fst args)) M (fst st1)" using F(1) by (rule agreeOn_mono) simp
    from cloneValues_remap [OF v F(2) this] have r: "rs1 = remapValues (lookupOrDefault M) args" .
    from domr F(7) have "dominatedOps (keysOf st1) ops" by simp
    with 4 g F(4,5,6) have "gs = remapOps (lookupOrDefault M) ops" by blast
    with e r show "x' = remapBlock (lookupOrDefault M) (Block args ops)" by simp
  qed
next
  case 5
  show ?case by simp
next
  case (6 b bs)
  show ?case
  proof (intro allI impI)
    fix st x' st'
    assume c: "cloneBlocks (b # bs) st = (x', st')"
      and dom: "dominatedBlocks (keysOf st) (b # bs)"
      and dist: "distinct (definedBlocks (b # bs))"
      and disj: "set (definedBlocks (b # bs)) \<inter> keysOf st = {}"
      and ag: "agreeOn (keysOf st \<union> set (definedBlocks (b # bs))) M (fst st')"
    obtain a st1 where v: "cloneBlock b st = (a, st1)" by (cases "cloneBlock b st")
    obtain gs st2 where g: "cloneBlocks bs st1 = (gs, st2)" by (cases "cloneBlocks bs st1")
    from c v g have e: "x' = a # gs" "st' = st2" by auto
    from clone_spec(3) v have V: "cloneSpec (definedBlock b) (definedBlock a) st st1" by blast
    from clone_spec(4) g have G: "cloneSpec (definedBlocks bs) (definedBlocks gs) st1 st2" by blast
    from dist have dist': "distinct (definedBlock b @ definedBlocks bs)" by simp
    from disj have disj': "set (definedBlock b @ definedBlocks bs) \<inter> keysOf st = {}" by simp
    from ag e have ag': "agreeOn (keysOf st \<union> set (definedBlock b @ definedBlocks bs)) M (fst st2)" by simp
    note F = clone_seq_facts [OF V G dist' disj' ag']
    from dom have d1: "dominatedBlock (keysOf st) b"
      and d2: "dominatedBlocks (keysOf st \<union> set (definedBlock b)) bs" by simp_all
    from 6 v d1 F(1,2,3) have A: "a = remapBlock (lookupOrDefault M) b" by blast
    from d2 F(7) have "dominatedBlocks (keysOf st1) bs" by simp
    with 6 g F(4,5,6) have "gs = remapBlocks (lookupOrDefault M) bs" by blast
    with A e show "x' = remapBlocks (lookupOrDefault M) (b # bs)" by simp
  qed
next
  case (7 blocks)
  show ?case
  proof (intro allI impI)
    fix st x' st'
    assume c: "cloneRegion (Region blocks) st = (x', st')"
      and dom: "dominatedRegion (keysOf st) (Region blocks)"
      and dist: "distinct (definedRegion (Region blocks))"
      and disj: "set (definedRegion (Region blocks)) \<inter> keysOf st = {}"
      and ag: "agreeOn (keysOf st \<union> set (definedRegion (Region blocks))) M (fst st')"
    obtain gs st2 where g: "cloneBlocks blocks st = (gs, st2)" by (cases "cloneBlocks blocks st")
    from c g have e: "x' = Region gs" "st' = st2" by auto
    from dom have d1: "dominatedBlocks (keysOf st) blocks" by simp
    from dist have d2: "distinct (definedBlocks blocks)" by simp
    from disj have d3: "set (definedBlocks blocks) \<inter> keysOf st = {}" by simp
    from ag e have d4: "agreeOn (keysOf st \<union> set (definedBlocks blocks)) M (fst st2)" by simp
    from 7 g d1 d2 d3 d4 have "gs = remapBlocks (lookupOrDefault M) blocks" by blast
    with e show "x' = remapRegion (lookupOrDefault M) (Region blocks)" by simp
  qed
next
  case 8
  show ?case by simp
next
  case (9 r rs)
  show ?case
  proof (intro allI impI)
    fix st x' st'
    assume c: "cloneRegions (r # rs) st = (x', st')"
      and dom: "dominatedRegions (keysOf st) (r # rs)"
      and dist: "distinct (definedRegions (r # rs))"
      and disj: "set (definedRegions (r # rs)) \<inter> keysOf st = {}"
      and ag: "agreeOn (keysOf st \<union> set (definedRegions (r # rs))) M (fst st')"
    obtain a st1 where v: "cloneRegion r st = (a, st1)" by (cases "cloneRegion r st")
    obtain gs st2 where g: "cloneRegions rs st1 = (gs, st2)" by (cases "cloneRegions rs st1")
    from c v g have e: "x' = a # gs" "st' = st2" by auto
    from clone_spec(5) v have V: "cloneSpec (definedRegion r) (definedRegion a) st st1" by blast
    from clone_spec(6) g have G: "cloneSpec (definedRegions rs) (definedRegions gs) st1 st2" by blast
    from dist have dist': "distinct (definedRegion r @ definedRegions rs)" by simp
    from disj have disj': "set (definedRegion r @ definedRegions rs) \<inter> keysOf st = {}" by simp
    from ag e have ag': "agreeOn (keysOf st \<union> set (definedRegion r @ definedRegions rs)) M (fst st2)" by simp
    note F = clone_seq_facts [OF V G dist' disj' ag']
    from dom have d1: "dominatedRegion (keysOf st) r"
      and d2: "dominatedRegions (keysOf st \<union> set (definedRegion r)) rs" by simp_all
    from 9 v d1 F(1,2,3) have A: "a = remapRegion (lookupOrDefault M) r" by blast
    from d2 F(7) have "dominatedRegions (keysOf st1) rs" by simp
    with 9 g F(4,5,6) have "gs = remapRegions (lookupOrDefault M) rs" by blast
    with A e show "x' = remapRegions (lookupOrDefault M) (r # rs)" by simp
  qed
qed


lemma remap_defined_used:
  "definedOp (remapOp f op) = map f (definedOp op) \<and> usedOp (remapOp f op) = map f (usedOp op)"
  "definedOps (remapOps f ops) = map f (definedOps ops) \<and> usedOps (remapOps f ops) = map f (usedOps ops)"
  "definedBlock (remapBlock f b) = map f (definedBlock b) \<and> usedBlock (remapBlock f b) = map f (usedBlock b)"
  "definedBlocks (remapBlocks f bs) = map f (definedBlocks bs) \<and> usedBlocks (remapBlocks f bs) = map f (usedBlocks bs)"
  "definedRegion (remapRegion f r) = map f (definedRegion r) \<and> usedRegion (remapRegion f r) = map f (usedRegion r)"
  "definedRegions (remapRegions f rs) = map f (definedRegions rs) \<and> usedRegions (remapRegions f rs) = map f (usedRegions rs)"
  by (induction op and ops and b and bs and r and rs rule: ir_induct)
     (simp_all add: remapValues_def comp_def case_prod_beta)

lemma dominated_used:
  "\<forall>S. dominatedOp S op \<longrightarrow> set (usedOp op) \<subseteq> S \<union> set (definedOp op)"
  "\<forall>S. dominatedOps S ops \<longrightarrow> set (usedOps ops) \<subseteq> S \<union> set (definedOps ops)"
  "\<forall>S. dominatedBlock S b \<longrightarrow> set (usedBlock b) \<subseteq> S \<union> set (definedBlock b)"
  "\<forall>S. dominatedBlocks S bs \<longrightarrow> set (usedBlocks bs) \<subseteq> S \<union> set (definedBlocks bs)"
  "\<forall>S. dominatedRegion S r \<longrightarrow> set (usedRegion r) \<subseteq> S \<union> set (definedRegion r)"
  "\<forall>S. dominatedRegions S rs \<longrightarrow> set (usedRegions rs) \<subseteq> S \<union> set (definedRegions rs)"
proof (induction op and ops and b and bs and r and rs rule: ir_induct)
  case (1 name operands results attrs regions)
  then show ?case by (fastforce simp: list_all_iff)
next
  case (3 op ops)
  then show ?case by fastforce
next
  case (4 args ops)
  then show ?case by fastforce
next
  case (6 b bs)
  then show ?case by fastforce
next
  case (9 r rs)
  then show ?case by fastforce
qed simp_all

lemma cloneRegion_dominated:
  assumes c: "cloneRegion body ([], n) = (body', (mapper, n'))"
    and dom: "dominatedRegion {} body"
    and dist: "distinct (definedRegion body)"
    and fresh: "\<forall>v\<in>set (definedRegion body). v < n"
  shows "body' = remapRegion (lookupOrDefault mapper) body"
    and "map (lookupOrDefault mapper) (definedRegion body) = [n..<n + length (definedRegion body)]"
    and "definedRegion body' = [n..<n + length (definedRegion body)]"
    and "set (usedRegion body') \<subseteq> set (definedRegion body')"
    and "set (usedRegion body') \<inter> set (definedRegion body) = {}"
    and "set (definedRegion body') \<inter> set (definedRegion body) = {}"
proof -
  have k: "keysOf ([], n) = {}" by (simp add: keysOf_def)
  have ag: "agreeOn (keysOf ([], n) \<union> set (definedRegion body)) mapper (fst (mapper, n'))"
    by (simp add: agreeOn_def)
  from clone_remap(5) [of body mapper] c dom dist ag k
  show r: "body' = remapRegion (lookupOrDefault mapper) body" by (metis inf_bot_right)
  from clone_spec(5) c have "cloneSpec (definedRegion body) (definedRegion body') ([], n) (mapper, n')"
    by blast
  then show d: "definedRegion body' = [n..<n + length (definedRegion body)]"
    by (simp add: cloneSpec_def)
  from r d remap_defined_used(5) [of "lookupOrDefault mapper" body]
  show m: "map (lookupOrDefault mapper) (definedRegion body) = [n..<n + length (definedRegion body)]"
    by simp
  from dominated_used(5) dom have "set (usedRegion body) \<subseteq> set (definedRegion body)" by blast
  then have "lookupOrDefault mapper ` set (usedRegion body) \<subseteq> lookupOrDefault mapper ` set (definedRegion body)"
    by blast
  with r remap_defined_used(5) [of "lookupOrDefault mapper" body]
  show u: "set (usedRegion body') \<subseteq> set (definedRegion body')" by simp
  from d fresh show dd: "set (definedRegion body') \<inter> set (definedRegion body) = {}" by fastforce
  from u dd show "set (usedRegion body') \<inter> set (definedRegion body) = {}" by blast
qed

text \<open>
  C3. For every \<open>cir.func\<close> that the function pattern rewrites (a function with its symbol
  name, its function type and its one body region, whose body satisfies the invariants of
  the data model: each Value is defined once, every operand refers to a Value defined
  earlier in program order, and the rewriter's next handle is unused), the pattern
  produces a \<open>func.func\<close> with the same symbol name and the same function type, whose body
  is the original body with every handle replaced through the value mapping: the same
  operations, attributes, types and nesting. The mapping sends the Values the body defines,
  in order, to the new handles \<open>rewriter, rewriter + 1, ...\<close> (so it is one-to-one), every
  operand of the new body refers to a Value the new body defines, and no operand and no
  definition of the new body is a Value of the original body.
\<close>

theorem CIRFuncLowering_keeps_signature_and_clones_body:
  assumes "opName op = ''cir.func''"
    and "getAttr op ''sym_name'' = Some (StringAttr name)"
    and "getAttr op ''function_type'' = Some (TypeAttr (FunctionType ins outs))"
    and "opResults op = []"
    and "opRegions op = [body]"
    and "dominatedRegion {} body"
    and "distinct (definedRegion body)"
    and "\<forall>v\<in>set (definedRegion body). v < rewriter"
  shows "\<exists>fn body' mapper rewriter'.
           CIRFuncLowering op rewriter = Inr (fn, rewriter')
         \<and> opName fn = ''func.func''
         \<and> getAttr fn ''sym_name'' = Some (StringAttr name)
         \<and> getAttr fn ''function_type'' = Some (TypeAttr (FunctionType ins outs))
         \<and> opRegions fn = [body']
         \<and> body' = remapRegion (lookupOrDefault mapper) body
         \<and> map (lookupOrDefault mapper) (definedRegion body)
             = [rewriter..<rewriter + length (definedRegion body)]
         \<and> set (usedRegion body') \<subseteq> set (definedRegion body')
         \<and> set (usedRegion body') \<inter> set (definedRegion body) = {}
         \<and> set (definedRegion body') \<inter> set (definedRegion body) = {}"
proof -
  obtain body' mapper rewriter' where
    c: "cloneRegion body ([], rewriter) = (body', (mapper, rewriter'))"
    by (metis prod_cases3)
  obtain blocks where b: "body = Region blocks" by (cases body)
  from c b obtain blocks' where
    cb: "cloneBlocks blocks ([], rewriter) = (blocks', (mapper, rewriter'))"
    and b': "body' = Region blocks'"
    by (auto split: prod.splits)
  let ?fn = "Operation ''func.func'' [] []
               [(''sym_name'', StringAttr name), (''function_type'', TypeAttr (FunctionType ins outs))]
               [body']"
  have run: "CIRFuncLowering op rewriter = Inr (?fn, rewriter')"
    using assms(2-5) b b' cb
    by (simp add: CIRFuncLowering_def FuncOp_getName_def FuncOp_getFunctionType_def
          replaceOpWithNewOp_def func_FuncOp_build_def at_def Region_cloneInto_def)
  note P = cloneRegion_dominated [OF c assms(6) assms(7) assms(8)]
  have "opName ?fn = ''func.func''" "getAttr ?fn ''sym_name'' = Some (StringAttr name)"
    "getAttr ?fn ''function_type'' = Some (TypeAttr (FunctionType ins outs))"
    "opRegions ?fn = [body']"
    by (simp_all add: getAttr_def)
  with run P show ?thesis by blast
qed

theorem CIRFuncLowering_keeps_signature_and_clones_body_witness:
  "\<exists>fn body' mapper rewriter'.
      CIRFuncLowering exampleFunc 4 = Inr (fn, rewriter')
    \<and> opName fn = ''func.func''
    \<and> getAttr fn ''sym_name'' = Some (StringAttr ''foo'')
    \<and> getAttr fn ''function_type''
        = Some (TypeAttr (FunctionType [IntegerType 32] [IntegerType 32]))
    \<and> opRegions fn = [body']
    \<and> body' = remapRegion (lookupOrDefault mapper) (hd (opRegions exampleFunc))
    \<and> map (lookupOrDefault mapper) (definedRegion (hd (opRegions exampleFunc)))
        = [4..<4 + length (definedRegion (hd (opRegions exampleFunc)))]
    \<and> set (usedRegion body') \<subseteq> set (definedRegion body')
    \<and> set (usedRegion body') \<inter> set (definedRegion (hd (opRegions exampleFunc))) = {}
    \<and> set (definedRegion body') \<inter> set (definedRegion (hd (opRegions exampleFunc))) = {}"
  by (rule CIRFuncLowering_keeps_signature_and_clones_body)
     (simp_all add: exampleFunc_def getAttr_def)

lemma CIRFuncLowering_exampleFunc:
  "CIRFuncLowering exampleFunc 4 = Inr
     (Operation ''func.func'' [] []
       [(''sym_name'', StringAttr ''foo''),
        (''function_type'', TypeAttr (FunctionType [IntegerType 32] [IntegerType 32]))]
       [Region [Block [(4, IntegerType 32)]
          [Operation ''cir.alloca'' [] [(5, CIRPointerType (IntegerType 32))]
             [(''type'', TypeAttr (IntegerType 32))] [],
           Operation ''cir.store'' [4, 5] [] [] [],
           Operation ''cir.scope'' [] [] []
             [Region [Block []
                [Operation ''cir.load'' [5] [(6, IntegerType 32)] [] [],
                 Operation ''cir.store'' [6, 5] [] [] []]]],
           Operation ''cir.load'' [5] [(7, IntegerType 32)] [] [],
           Operation ''cir.return'' [7] [] [] []]]], 8)"
  by (simp add: exampleFunc_def CIRFuncLowering_def FuncOp_getName_def FuncOp_getFunctionType_def
        replaceOpWithNewOp_def func_FuncOp_build_def at_def Region_cloneInto_def getAttr_def
        lookupOrDefault_def)

section \<open>The passes and the pipeline\<close>

lemmas pattern_names =
  fnPatterns_def retPatterns_def populateCIRToMemRefConversionPatterns_def
  CIRFuncLowering_pattern_def CIRReturnLowering_pattern_def CIRCallLowering_pattern_def
  CIRAllocaLowering_pattern_def CIRLoadLowering_pattern_def CIRStoreLowering_pattern_def
  CIRConstantLowering_pattern_def OpRewritePattern_def ConversionPattern_def

lemmas pass_defs =
  createConvertCIRToFuncPass_def createConvertCIRToMemRefPass_def createConvertCIRToLLVMPass_def
  ConvertCIRToFuncPass_runOnOperation_def ConvertCIRToMemRefPass_runOnOperation_def
  ConvertCIRToLLVMPass_runOnOperation_def















text \<open>
  C9. The function pass makes two partial-conversion runs on the module, one after the
  other: the first with the function pattern, the second, on the module as the first run
  left it, with the return and call patterns. The second run is made whatever the verdict
  of the first, also when the first has failed; the pass has failed when either run has.
\<close>

theorem funcPass_runs_both_conversions:
  assumes "drv PartialConversion module fnTarget fnPatterns = Done (r1, module1)"
    and "drv PartialConversion module1 retTarget retPatterns = Done (r2, module2)"
  shows "ConvertCIRToFuncPass_runOnOperation drv module =
           Done \<lparr>passFailed = (r1 = Failure \<or> r2 = Failure), passModule = module2,
                 passCalls = [(PartialConversion, [''CIRFuncLowering'']),
                              (PartialConversion, [''CIRReturnLowering'', ''CIRCallLowering''])]\<rparr>"
  using assms
  by (simp add: ConvertCIRToFuncPass_runOnOperation_def failed_def pattern_names)

theorem funcPass_runs_both_conversions_witness:
  "ConvertCIRToFuncPass_runOnOperation (failsOn [''CIRFuncLowering'']) emptyModule =
     Done \<lparr>passFailed = True, passModule = emptyModule,
           passCalls = [(PartialConversion, [''CIRFuncLowering'']),
                        (PartialConversion, [''CIRReturnLowering'', ''CIRCallLowering''])]\<rparr>"
  using funcPass_runs_both_conversions
    [of "failsOn [''CIRFuncLowering'']" emptyModule Failure emptyModule Success emptyModule]
  by (simp add: failsOn_def pattern_names)

text \<open>
  C10. \<open>lowerFromCIRToLLVMIR\<close> never returns a null module: when it returns, the handle
  is not null. A failure of the pass manager, of the verification of the final module and
  of the translation each end in \<open>report_fatal_error\<close>, with the message of its own.
\<close>

theorem lowerFromCIRToLLVMIR_returns_module_or_dies:
  "(\<forall>h. lowerFromCIRToLLVMIR drv pats verify translate m = Done (Returned h) \<longrightarrow> h \<noteq> None)
   \<and> (\<forall>p. PassManager_run (loweringPipeline drv pats) m = Done p \<longrightarrow>
        lowerFromCIRToLLVMIR drv pats verify translate m =
          (if pipelineState p \<noteq> Succeeded
           then Done (report_fatal_error ''The pass manager failed to lower CIR to LLVMIR dialect!'')
           else if verify (pipelineModule p) = Failure
           then Done (report_fatal_error ''Verification of the final LLVMIR dialect failed!'')
           else case translate (pipelineModule p) of
                  None \<Rightarrow> Done (report_fatal_error ''Lowering from LLVMIR dialect to llvm IR failed!'')
                | Some l \<Rightarrow> Done (Returned (Some l))))"
  by (auto simp: lowerFromCIRToLLVMIR_def Let_def failed_def split: run.splits if_splits option.splits)

theorem lowerFromCIRToLLVMIR_returns_module_or_dies_witness:
  "lowerFromCIRToLLVMIR alwaysSucceeds [] (\<lambda>m. Success) (\<lambda>m. Some (0::nat)) emptyModule
     = Done (Returned (Some 0))
   \<and> lowerFromCIRToLLVMIR alwaysSucceeds [] (\<lambda>m. Failure) (\<lambda>m. Some (0::nat)) emptyModule
     = Done (report_fatal_error ''Verification of the final LLVMIR dialect failed!'')
   \<and> lowerFromCIRToLLVMIR alwaysSucceeds [] (\<lambda>m. Success) (\<lambda>m. (None :: nat option)) emptyModule
     = Done (report_fatal_error ''Lowering from LLVMIR dialect to llvm IR failed!'')
   \<and> lowerFromCIRToLLVMIR (failsOn []) [] (\<lambda>m. Success) (\<lambda>m. Some (0::nat)) emptyModule
     = Done (report_fatal_error ''The pass manager failed to lower CIR to LLVMIR dialect!'')"
proof -
  have p: "PassManager_run (loweringPipeline alwaysSucceeds []) emptyModule =
      Done \<lparr>pipelineState = Succeeded, pipelineModule = emptyModule,
            pipelineTrace = fullTrace []\<rparr>"
    by (simp add: PassManager_run_def loweringPipeline_def PassManager_addPass_def pass_defs
          alwaysSucceeds_def failed_def fullTrace_def pattern_names)
  have q: "PassManager_run (loweringPipeline (failsOn []) []) emptyModule =
      Done \<lparr>pipelineState = Failed 2 ''cir-to-llvm'', pipelineModule = emptyModule,
            pipelineTrace = fullTrace []\<rparr>"
    by (simp add: PassManager_run_def loweringPipeline_def PassManager_addPass_def pass_defs
          failsOn_def failed_def fullTrace_def pattern_names)
  show ?thesis
    using lowerFromCIRToLLVMIR_returns_module_or_dies [of alwaysSucceeds "[]" "\<lambda>m. Success" "\<lambda>m. Some (0::nat)" emptyModule]
      lowerFromCIRToLLVMIR_returns_module_or_dies [of alwaysSucceeds "[]" "\<lambda>m. Failure" "\<lambda>m. Some (0::nat)" emptyModule]
      lowerFromCIRToLLVMIR_returns_module_or_dies [of alwaysSucceeds "[]" "\<lambda>m. Success" "\<lambda>m. (None :: nat option)" emptyModule]
      lowerFromCIRToLLVMIR_returns_module_or_dies [of "failsOn []" "[]" "\<lambda>m. Success" "\<lambda>m. Some (0::nat)" emptyModule]
      p q
    by simp
qed

section \<open>Properties of the conversion driver\<close>

lemmas ops_induct = operationsOp_operationsOps_operationsBlock_operationsBlocks_operationsRegion_operationsRegions.induct

lemma legalize_legal:
  "list_all (isLegal target) (operationsOp op) \<longrightarrow>
     (\<forall>st. legalizeOp fuel target patterns op st = Done ([op], st))"
  "list_all (isLegal target) (operationsOps ops) \<longrightarrow>
     (\<forall>st. legalizeOps fuel target patterns ops st = Done (ops, st))"
  "list_all (isLegal target) (operationsBlock b) \<longrightarrow>
     (\<forall>st. legalizeBlock fuel target patterns b st = Done (b, st))"
  "list_all (isLegal target) (operationsBlocks bs) \<longrightarrow>
     (\<forall>st. legalizeBlocks fuel target patterns bs st = Done (bs, st))"
  "list_all (isLegal target) (operationsRegion r) \<longrightarrow>
     (\<forall>st. legalizeRegion fuel target patterns r st = Done (r, st))"
  "list_all (isLegal target) (operationsRegions rs) \<longrightarrow>
     (\<forall>st. legalizeRegions fuel target patterns rs st = Done (rs, st))"
  by (induction op and ops and b and bs and r and rs rule: ops_induct) (simp_all add: Let_def)

lemma rebuild_operation:
  "Operation (opName m) (opOperands m) (opResults m) (opAttrs m) (opRegions m) = m"
  by (cases m) simp

lemma operationsOp_regions:
  "list_all P (operationsOp m) \<Longrightarrow> list_all P (operationsRegions (opRegions m))"
  by (cases m) simp

text \<open>
  C7. A full-conversion run on a module in which every operation is legal for the target
  performs no rewrite, leaves the module as it is and reports success, for every pattern
  set and with any fuel; so the conversion to the LLVM dialect, run with this driver on a
  module that is legal for its target, does not fail and leaves the module as it is.
\<close>

theorem full_conversion_of_legal_module_is_identity:
  assumes "list_all (isLegal target) (operationsOp module)"
  shows "applyConversion fuel FullConversion module target patterns = Done (Success, module, [])
       \<and> (target = llvmTarget \<longrightarrow>
            ConvertCIRToLLVMPass_runOnOperation (conversionDriver fuel) patterns module
              = Done \<lparr>passFailed = False, passModule = module,
                      passCalls = [(FullConversion, map patName patterns)]\<rparr>)"
proof -
  from assms have "list_all (isLegal target) (operationsRegions (opRegions module))"
    by (rule operationsOp_regions)
  with legalize_legal(6) [of target "opRegions module" fuel patterns]
  have "legalizeRegions fuel target patterns (opRegions module) (initialState module)
          = Done (opRegions module, initialState module)" by blast
  then have "drive fuel target patterns module = Done (module, [])"
    by (simp add: drive_def rebuild_operation initialState_def)
  with assms have r: "applyConversion fuel FullConversion module target patterns
                        = Done (Success, module, [])"
    by (simp add: applyConversion_def finalCheck_def)
  then show ?thesis
    by (auto simp: ConvertCIRToLLVMPass_runOnOperation_def conversionDriver_def failed_def)
qed

theorem full_conversion_of_legal_module_is_identity_witness:
  "applyConversion 0 FullConversion legalModule llvmTarget [] = Done (Success, legalModule, [])
   \<and> ConvertCIRToLLVMPass_runOnOperation (conversionDriver 0) [] legalModule
       = Done \<lparr>passFailed = False, passModule = legalModule,
               passCalls = [(FullConversion, [])]\<rparr>"
  using full_conversion_of_legal_module_is_identity [of llvmTarget legalModule 0 "[]"]
  by (simp add: legalModule_def llvmTarget_def LLVMConversionTarget_def isLegal_def getOpAction_def
        addLegalOp_def addLegalDialect_def emptyTarget_def dialectOf_def)








lemma grows_refl: "grows st st []"
  by (simp add: grows_def)















end
